theory Spec2Isabelle
  imports Main "HOL-Library.Word" "HOL-Library.Char_ord"
begin

section \<open>Data model of pkg/git/GitCliManager.go\<close>

text \<open>
  Go strings are byte sequences and so are HOL strings (\<^typ>\<open>char\<close> is a byte), hence
  \<open>len\<close> is \<^const>\<open>length\<close> and slicing is \<^const>\<open>take\<close>.

  A Go \<open>error\<close> is \<open>nil\<close> or an error value: \<^typ>\<open>'a option\<close> over the error values
  below. The only thing the file ever asks of an error value is \<open>os.IsNotExist\<close>, so the
  error values are the not-found error and every other error, the latter with its text.
\<close>

datatype error = ErrNotExist | ErrOther string

type_synonym go_error = "error option"

text \<open>\<open>os.IsNotExist\<close>: false on \<open>nil\<close>, true exactly on a not-found error.\<close>

fun IsNotExist :: "go_error \<Rightarrow> bool" where
  "IsNotExist None = False"
| "IsNotExist (Some ErrNotExist) = True"
| "IsNotExist (Some (ErrOther m)) = False"

text \<open>
  Modelled from the spec: the struct types \<open>GitCommitFormat\<close> (the decoded fragment),
  \<open>GitCommitBase\<close> (the commit) and \<open>GitRepository\<close> are declared in files of the
  repository other than GitCliManager.go. Their field names are the ones GitCliManager.go
  reads and writes; the fields are strings, as in sections 3 and 6 of the specification.
\<close>

record GitPerson =
  Name :: string
  Email :: string
  Date :: string

record GitCommitFormat =
  Commit :: string
  Commiter :: GitPerson
  Subject :: string
  Body :: string

record GitCommitBase =
  Commit :: string
  Author :: string
  Date :: string
  Message :: string
  CheckoutPath :: string

record GitRepository =
  rootDir :: string

section \<open>processGitLogOutput\<close>

text \<open>
  \<open>json.Unmarshal\<close> into a \<open>[]GitCommitFormat\<close> belongs to the Go standard library, and the
  target type is declared elsewhere: the decoder is the parameter \<open>unmarshal\<close>, which gets
  the text and returns the list it has filled in together with its error. A Go decoder may
  have filled part of the list when it reports an error, so both components are kept.
\<close>

type_synonym unmarshal = "string \<Rightarrow> GitCommitFormat list \<times> go_error"

text \<open>The body of the \<open>for ... range\<close> loop: one commit from one fragment.\<close>

definition toGitCommit :: "string \<Rightarrow> GitCommitFormat \<Rightarrow> GitCommitBase" where
  "toGitCommit root formattedCommit =
     \<lparr> Commit = GitCommitFormat.Commit formattedCommit,
       Author = Name (Commiter formattedCommit) @ '' <'' @ Email (Commiter formattedCommit) @ ''>'',
       Date = GitPerson.Date (Commiter formattedCommit),
       Message = Subject formattedCommit @ [CHR 0x0A] @ Body formattedCommit,
       CheckoutPath = root \<rparr>"

text \<open>The loop itself: \<open>gitCommits = append(gitCommits, ...)\<close> for each fragment in turn.\<close>

fun appendCommits :: "string \<Rightarrow> GitCommitBase list \<Rightarrow> GitCommitFormat list \<Rightarrow> GitCommitBase list" where
  "appendCommits root gitCommits [] = gitCommits"
| "appendCommits root gitCommits (formattedCommit # rest) =
     appendCommits root (gitCommits @ [toGitCommit root formattedCommit]) rest"

text \<open>
  Lines 155-157: \<open>logOut[:len(logOut)-1]\<close>, then \<open>fmt.Sprintf("[%s]", logOut)\<close>.
\<close>

definition repair :: "string \<Rightarrow> string" where
  "repair out = ''['' @ take (length out - 1) out @ '']''"

text \<open>
  The result pair is the Go result pair; the \<open>nil\<close> slice and the empty slice are both
  the empty list.
\<close>

definition processGitLogOutput :: "unmarshal \<Rightarrow> string \<Rightarrow> string \<Rightarrow> GitCommitBase list \<times> go_error" where
  "processGitLogOutput unmarshal out root =
     (if length out = 0 then ([], None)
      else
        let logOut = repair out;
            (gitCommitFormattedList, err) = unmarshal logOut
        in if err \<noteq> None then ([], err)
           else (appendCommits root [] gitCommitFormattedList, None))"

section \<open>External collaborators\<close>

text \<open>
  The process boundary, the file system and the functions of the repository that
  GitCliManager.go calls but does not declare are parameters of the model, in the order
  below; \<open>'ctx\<close> is the type of the \<open>GitContext\<close>, which the file only passes on.
  The logger calls have no effect on any result and are left out.

  \<^item> \<open>runCommand\<close>: the command (its context and its argument vector, program name
    first, as \<open>exec.CommandContext\<close> builds it) to the triple \<open>output, errMsg, err\<close>;
  \<^item> \<open>Abs\<close> (\<open>filepath.Abs\<close>): a path to the absolute path and the error;
  \<^item> \<open>Stat\<close> (\<open>osfs.New(path).Stat(name)\<close>): the error of the stat, the file info being
    discarded by the caller;
  \<^item> \<open>GITFORMAT\<close>: the output format template, a string constant;
  \<^item> \<open>FetchDiffStatBetweenCommits\<close>: the context, the two revisions and the checkout path
    to the triple \<open>fileStat, errorMsg, err\<close>;
  \<^item> \<open>getFileStat\<close>: the diff-stat text to the pair of the \<open>FileStats\<close> and the error.
\<close>

type_synonym 'ctx runCommand = "'ctx \<Rightarrow> string list \<Rightarrow> string \<times> string \<times> go_error"

type_synonym 'ctx fetchDiffStat =
  "'ctx \<Rightarrow> string \<Rightarrow> string \<Rightarrow> string \<Rightarrow> string \<times> string \<times> go_error"

section \<open>OpenRepoPlain\<close>

definition openGitRepo :: "(string \<Rightarrow> string \<times> go_error) \<Rightarrow> (string \<Rightarrow> string \<Rightarrow> go_error) \<Rightarrow> string \<Rightarrow> go_error" where
  "openGitRepo Abs Stat path =
     (if snd (Abs path) \<noteq> None then snd (Abs path)
      else
        let err = Stat path ''.git''
        in if \<not> IsNotExist err then err else None)"

text \<open>The result pair: the \<open>*GitRepository\<close> (\<open>nil\<close> is \<open>None\<close>) and the error.\<close>

definition OpenRepoPlain :: "(string \<Rightarrow> string \<times> go_error) \<Rightarrow> (string \<Rightarrow> string \<Rightarrow> go_error) \<Rightarrow> string \<Rightarrow> GitRepository option \<times> go_error" where
  "OpenRepoPlain Abs Stat checkoutPath =
     (let err = openGitRepo Abs Stat checkoutPath
      in if err \<noteq> None then (None, err)
         else (Some \<lparr> rootDir = checkoutPath \<rparr>, None))"

section \<open>GetCommits and getCommandForLogRange\<close>

text \<open>\<open>strconv.Itoa\<close> on a 64-bit \<open>int\<close>: the decimal digits, with a minus sign when negative.\<close>

fun formatDecimal :: "nat \<Rightarrow> string" where
  "formatDecimal n =
     (if n < 10 then [char_of (48 + n)]
      else formatDecimal (n div 10) @ [char_of (48 + n mod 10)])"

definition Itoa :: "64 word \<Rightarrow> string" where
  "Itoa i = (if sint i < 0 then ''-'' @ formatDecimal (nat (- sint i)) else formatDecimal (nat (sint i)))"

definition getCommandForLogRange :: "string \<Rightarrow> string \<Rightarrow> string \<Rightarrow> string list \<Rightarrow> string list \<Rightarrow> string list \<Rightarrow> string list" where
  "getCommandForLogRange branchRef from to rangeCmdArgs baseCmdArgs extraCmdArgs =
     (let rangeCmdArgs =
            (if from \<noteq> [] \<and> to \<noteq> [] then [from @ ''^..'' @ to]
             else if from \<noteq> [] then [from @ ''^..'' @ branchRef]
             else if to \<noteq> [] then [to]
             else rangeCmdArgs)
      in baseCmdArgs @ (rangeCmdArgs @ extraCmdArgs))"

text \<open>Lines 108-111 of \<open>GetCommits\<close>: the argument list of the history query.\<close>

definition GetCommits_cmdArgs :: "string \<Rightarrow> string \<Rightarrow> string \<Rightarrow> 64 word \<Rightarrow> string \<Rightarrow> string \<Rightarrow> string list" where
  "GetCommits_cmdArgs GITFORMAT branchRef root numCommits from to =
     (let baseCmdArgs = [''-C'', root, ''log''];
          rangeCmdArgs = [branchRef];
          extraCmdArgs = [''-n'', Itoa numCommits, ''--date=iso-strict'', GITFORMAT]
      in getCommandForLogRange branchRef from to rangeCmdArgs baseCmdArgs extraCmdArgs)"

definition GetCommits :: "'ctx runCommand \<Rightarrow> unmarshal \<Rightarrow> string \<Rightarrow> 'ctx \<Rightarrow> string \<Rightarrow> string \<Rightarrow> string \<Rightarrow> 64 word \<Rightarrow> string \<Rightarrow> string \<Rightarrow> GitCommitBase list \<times> go_error" where
  "GetCommits runCommand unmarshal GITFORMAT gitContext branchRef branch root numCommits from to =
     (let cmdArgs = GetCommits_cmdArgs GITFORMAT branchRef root numCommits from to;
          (output, errMsg, err) = runCommand gitContext (''git'' # cmdArgs)
      in if err \<noteq> None then ([], err)
         else
           let (commits, err) = processGitLogOutput unmarshal output root
           in if err \<noteq> None then ([], err) else (commits, None))"

section \<open>GitShow, GetCommitForHash, GetCommitsForTag\<close>

text \<open>
  The result pair: the \<open>GitCommit\<close> interface value (\<open>nil\<close> is \<open>None\<close>, a \<open>*GitCommitCli\<close>
  is its \<open>GitCommitBase\<close>) and the error. The \<open>err\<close> of \<open>runCommand\<close> is overwritten by
  the one of \<open>processGitLogOutput\<close> before it is read.
\<close>

definition GitShow :: "'ctx runCommand \<Rightarrow> unmarshal \<Rightarrow> string \<Rightarrow> 'ctx \<Rightarrow> string \<Rightarrow> string \<Rightarrow> GitCommitBase option \<times> go_error" where
  "GitShow runCommand unmarshal GITFORMAT gitContext root hash =
     (let (output, errMsg, err) =
            runCommand gitContext
              [''git'', ''-C'', root, ''show'', hash, ''--date=iso-strict'', GITFORMAT, ''-s''];
          (commits, err) = processGitLogOutput unmarshal output root
      in if err \<noteq> None \<or> length commits = 0 then (None, err)
         else (Some (commits ! 0), None))"

definition GetCommitsForTag :: "'ctx runCommand \<Rightarrow> unmarshal \<Rightarrow> string \<Rightarrow> 'ctx \<Rightarrow> string \<Rightarrow> string \<Rightarrow> GitCommitBase option \<times> go_error" where
  "GetCommitsForTag runCommand unmarshal GITFORMAT gitContext checkoutPath tag =
     GitShow runCommand unmarshal GITFORMAT gitContext checkoutPath tag"

definition GetCommitForHash :: "'ctx runCommand \<Rightarrow> unmarshal \<Rightarrow> string \<Rightarrow> 'ctx \<Rightarrow> string \<Rightarrow> string \<Rightarrow> GitCommitBase option \<times> go_error" where
  "GetCommitForHash runCommand unmarshal GITFORMAT gitContext checkoutPath commitHash =
     GitShow runCommand unmarshal GITFORMAT gitContext checkoutPath commitHash"

section \<open>GetCommitStats\<close>

text \<open>
  \<open>commit.GetCommit()\<close> of a \<open>*GitCommitCli\<close> is its \<open>GitCommitBase\<close>, so the commit is
  passed as that record. The result pair: the \<open>FileStats\<close> (a slice, \<open>nil\<close> is \<open>None\<close>)
  and the error.
\<close>

definition GetCommitStats :: "'ctx fetchDiffStat \<Rightarrow> (string \<Rightarrow> 'fs option \<times> go_error) \<Rightarrow> 'ctx \<Rightarrow> GitCommitBase \<Rightarrow> 'fs option \<times> go_error" where
  "GetCommitStats FetchDiffStatBetweenCommits getFileStat gitContext commit =
     (let gitCommit = commit;
          (fileStat, errorMsg, err) =
            FetchDiffStatBetweenCommits gitContext (Commit gitCommit) [] (CheckoutPath gitCommit)
      in if err \<noteq> None then (None, err)
         else getFileStat fileStat)"

section \<open>The syntax check of json.Unmarshal\<close>

text \<open>
  \<open>json.Unmarshal\<close> of the Go standard library first runs \<open>checkValid\<close> over the whole
  text and returns its error, the target untouched, when the text is not one JSON value;
  only then does it decode into the target. The check is the scanner of
  \<open>encoding/json/scanner.go\<close>, a state machine fed one byte at a time. It is modelled here
  function by function, because whether a repaired log output is accepted is decided by
  it: the scanner is a record passed through and returned, the step function it holds is
  a tag (\<open>StepBeginValue\<close> for \<open>stateBeginValue\<close>, ...) that \<open>scan_step\<close> dispatches on,
  and \<open>s.error(c, context)\<close> is \<open>error_at\<close>. The error value is kept as its context text;
  the byte counter, which only feeds the error's offset, is left out, and the context
  texts are written without the quoted byte. The states of the literals \<open>true\<close>,
  \<open>false\<close> and \<open>null\<close> differ in the byte they wait for and share the function
  \<open>expect\<close>. The parse-state stack grows at its end, as the Go slice does, and nesting
  deeper than \<open>maxNestingDepth\<close> is an error.
\<close>

datatype parse_state = parseObjectKey | parseObjectValue | parseArrayValue

datatype scan_code =
    scanContinue | scanBeginLiteral | scanBeginObject | scanObjectKey | scanObjectValue
  | scanEndObject | scanBeginArray | scanArrayValue | scanEndArray | scanSkipSpace
  | scanEnd | scanError

datatype step_fn =
    StepBeginValueOrEmpty | StepBeginValue | StepBeginStringOrEmpty | StepBeginString
  | StepEndValue | StepEndTop
  | StepInString | StepInStringEsc | StepInStringEscU | StepInStringEscU1
  | StepInStringEscU12 | StepInStringEscU123
  | StepNeg | Step1 | Step0 | StepDot | StepDot0 | StepE | StepESign | StepE0
  | StepT | StepTr | StepTru | StepF | StepFa | StepFal | StepFals
  | StepN | StepNu | StepNul
  | StepError

record scanner =
  step :: step_fn
  endTop :: bool
  parseState :: "parse_state list"
  err :: "string option"

definition maxNestingDepth :: nat where
  "maxNestingDepth = 10000"

definition reset :: scanner where
  "reset = \<lparr> step = StepBeginValue, endTop = False, parseState = [], err = None \<rparr>"

definition isSpace :: "char \<Rightarrow> bool" where
  "isSpace c = (c \<le> CHR '' '' \<and> (c = CHR '' '' \<or> c = CHR 0x09 \<or> c = CHR 0x0D \<or> c = CHR 0x0A))"

definition error_at :: "scanner \<Rightarrow> char \<Rightarrow> string \<Rightarrow> scan_code \<times> scanner" where
  "error_at s c context = (scanError, s\<lparr> step := StepError, err := Some context \<rparr>)"

definition pushParseState :: "scanner \<Rightarrow> char \<Rightarrow> parse_state \<Rightarrow> scan_code \<Rightarrow> scan_code \<times> scanner" where
  "pushParseState s c newParseState successState =
     (let s = s\<lparr> parseState := parseState s @ [newParseState] \<rparr>
      in if length (parseState s) \<le> maxNestingDepth then (successState, s)
         else error_at s c ''exceeded max depth'')"

definition popParseState :: "scanner \<Rightarrow> scanner" where
  "popParseState s =
     (let n = length (parseState s) - 1;
          s = s\<lparr> parseState := take n (parseState s) \<rparr>
      in if n = 0 then s\<lparr> step := StepEndTop, endTop := True \<rparr>
         else s\<lparr> step := StepEndValue \<rparr>)"

definition stateEndTop :: "scanner \<Rightarrow> char \<Rightarrow> scan_code \<times> scanner" where
  "stateEndTop s c =
     (if \<not> isSpace c then (scanEnd, snd (error_at s c ''after top-level value''))
      else (scanEnd, s))"

definition stateEndValue :: "scanner \<Rightarrow> char \<Rightarrow> scan_code \<times> scanner" where
  "stateEndValue s c =
     (let n = length (parseState s)
      in if n = 0 then stateEndTop (s\<lparr> step := StepEndTop, endTop := True \<rparr>) c
         else if isSpace c then (scanSkipSpace, s\<lparr> step := StepEndValue \<rparr>)
         else
           (case parseState s ! (n - 1) of
              parseObjectKey \<Rightarrow>
                if c = CHR '':''
                then (scanObjectKey,
                      s\<lparr> parseState := (parseState s)[n - 1 := parseObjectValue],
                         step := StepBeginValue \<rparr>)
                else error_at s c ''after object key''
            | parseObjectValue \<Rightarrow>
                if c = CHR '',''
                then (scanObjectValue,
                      s\<lparr> parseState := (parseState s)[n - 1 := parseObjectKey],
                         step := StepBeginString \<rparr>)
                else if c = CHR ''}'' then (scanEndObject, popParseState s)
                else error_at s c ''after object key:value pair''
            | parseArrayValue \<Rightarrow>
                if c = CHR '','' then (scanArrayValue, s\<lparr> step := StepBeginValue \<rparr>)
                else if c = CHR '']'' then (scanEndArray, popParseState s)
                else error_at s c ''after array element''))"

definition stateBeginValue :: "scanner \<Rightarrow> char \<Rightarrow> scan_code \<times> scanner" where
  "stateBeginValue s c =
     (if isSpace c then (scanSkipSpace, s)
      else if c = CHR ''{''
        then pushParseState (s\<lparr> step := StepBeginStringOrEmpty \<rparr>) c parseObjectKey scanBeginObject
      else if c = CHR ''[''
        then pushParseState (s\<lparr> step := StepBeginValueOrEmpty \<rparr>) c parseArrayValue scanBeginArray
      else if c = CHR 0x22 then (scanBeginLiteral, s\<lparr> step := StepInString \<rparr>)
      else if c = CHR ''-'' then (scanBeginLiteral, s\<lparr> step := StepNeg \<rparr>)
      else if c = CHR ''0'' then (scanBeginLiteral, s\<lparr> step := Step0 \<rparr>)
      else if c = CHR ''t'' then (scanBeginLiteral, s\<lparr> step := StepT \<rparr>)
      else if c = CHR ''f'' then (scanBeginLiteral, s\<lparr> step := StepF \<rparr>)
      else if c = CHR ''n'' then (scanBeginLiteral, s\<lparr> step := StepN \<rparr>)
      else if CHR ''1'' \<le> c \<and> c \<le> CHR ''9'' then (scanBeginLiteral, s\<lparr> step := Step1 \<rparr>)
      else error_at s c ''looking for beginning of value'')"

definition stateBeginValueOrEmpty :: "scanner \<Rightarrow> char \<Rightarrow> scan_code \<times> scanner" where
  "stateBeginValueOrEmpty s c =
     (if isSpace c then (scanSkipSpace, s)
      else if c = CHR '']'' then stateEndValue s c
      else stateBeginValue s c)"

definition stateBeginString :: "scanner \<Rightarrow> char \<Rightarrow> scan_code \<times> scanner" where
  "stateBeginString s c =
     (if isSpace c then (scanSkipSpace, s)
      else if c = CHR 0x22 then (scanBeginLiteral, s\<lparr> step := StepInString \<rparr>)
      else error_at s c ''looking for beginning of object key string'')"

definition stateBeginStringOrEmpty :: "scanner \<Rightarrow> char \<Rightarrow> scan_code \<times> scanner" where
  "stateBeginStringOrEmpty s c =
     (if isSpace c then (scanSkipSpace, s)
      else if c = CHR ''}''
        then
          (let n = length (parseState s)
           in stateEndValue (s\<lparr> parseState := (parseState s)[n - 1 := parseObjectValue] \<rparr>) c)
      else stateBeginString s c)"

definition stateInString :: "scanner \<Rightarrow> char \<Rightarrow> scan_code \<times> scanner" where
  "stateInString s c =
     (if c = CHR 0x22 then (scanContinue, s\<lparr> step := StepEndValue \<rparr>)
      else if c = CHR 0x5C then (scanContinue, s\<lparr> step := StepInStringEsc \<rparr>)
      else if c < CHR 0x20 then error_at s c ''in string literal''
      else (scanContinue, s))"

definition stateInStringEsc :: "scanner \<Rightarrow> char \<Rightarrow> scan_code \<times> scanner" where
  "stateInStringEsc s c =
     (if c = CHR ''b'' \<or> c = CHR ''f'' \<or> c = CHR ''n'' \<or> c = CHR ''r'' \<or> c = CHR ''t''
         \<or> c = CHR 0x5C \<or> c = CHR ''/'' \<or> c = CHR 0x22
      then (scanContinue, s\<lparr> step := StepInString \<rparr>)
      else if c = CHR ''u'' then (scanContinue, s\<lparr> step := StepInStringEscU \<rparr>)
      else error_at s c ''in string escape code'')"

definition isHex :: "char \<Rightarrow> bool" where
  "isHex c = (CHR ''0'' \<le> c \<and> c \<le> CHR ''9'' \<or> CHR ''a'' \<le> c \<and> c \<le> CHR ''f''
              \<or> CHR ''A'' \<le> c \<and> c \<le> CHR ''F'')"

definition stateInStringEscU :: "scanner \<Rightarrow> char \<Rightarrow> scan_code \<times> scanner" where
  "stateInStringEscU s c =
     (if isHex c then (scanContinue, s\<lparr> step := StepInStringEscU1 \<rparr>)
      else error_at s c ''in unicode hexadecimal character escape'')"

definition stateInStringEscU1 :: "scanner \<Rightarrow> char \<Rightarrow> scan_code \<times> scanner" where
  "stateInStringEscU1 s c =
     (if isHex c then (scanContinue, s\<lparr> step := StepInStringEscU12 \<rparr>)
      else error_at s c ''in unicode hexadecimal character escape'')"

definition stateInStringEscU12 :: "scanner \<Rightarrow> char \<Rightarrow> scan_code \<times> scanner" where
  "stateInStringEscU12 s c =
     (if isHex c then (scanContinue, s\<lparr> step := StepInStringEscU123 \<rparr>)
      else error_at s c ''in unicode hexadecimal character escape'')"

definition stateInStringEscU123 :: "scanner \<Rightarrow> char \<Rightarrow> scan_code \<times> scanner" where
  "stateInStringEscU123 s c =
     (if isHex c then (scanContinue, s\<lparr> step := StepInString \<rparr>)
      else error_at s c ''in unicode hexadecimal character escape'')"

definition isDigit :: "char \<Rightarrow> bool" where
  "isDigit c = (CHR ''0'' \<le> c \<and> c \<le> CHR ''9'')"

definition stateNeg :: "scanner \<Rightarrow> char \<Rightarrow> scan_code \<times> scanner" where
  "stateNeg s c =
     (if c = CHR ''0'' then (scanContinue, s\<lparr> step := Step0 \<rparr>)
      else if CHR ''1'' \<le> c \<and> c \<le> CHR ''9'' then (scanContinue, s\<lparr> step := Step1 \<rparr>)
      else error_at s c ''in numeric literal'')"

definition stateE0 :: "scanner \<Rightarrow> char \<Rightarrow> scan_code \<times> scanner" where
  "stateE0 s c = (if isDigit c then (scanContinue, s) else stateEndValue s c)"

definition stateESign :: "scanner \<Rightarrow> char \<Rightarrow> scan_code \<times> scanner" where
  "stateESign s c =
     (if isDigit c then (scanContinue, s\<lparr> step := StepE0 \<rparr>)
      else error_at s c ''in exponent of numeric literal'')"

definition stateE :: "scanner \<Rightarrow> char \<Rightarrow> scan_code \<times> scanner" where
  "stateE s c =
     (if c = CHR ''+'' \<or> c = CHR ''-'' then (scanContinue, s\<lparr> step := StepESign \<rparr>)
      else stateESign s c)"

definition stateDot0 :: "scanner \<Rightarrow> char \<Rightarrow> scan_code \<times> scanner" where
  "stateDot0 s c =
     (if isDigit c then (scanContinue, s)
      else if c = CHR ''e'' \<or> c = CHR ''E'' then (scanContinue, s\<lparr> step := StepE \<rparr>)
      else stateEndValue s c)"

definition stateDot :: "scanner \<Rightarrow> char \<Rightarrow> scan_code \<times> scanner" where
  "stateDot s c =
     (if isDigit c then (scanContinue, s\<lparr> step := StepDot0 \<rparr>)
      else error_at s c ''after decimal point in numeric literal'')"

definition state0 :: "scanner \<Rightarrow> char \<Rightarrow> scan_code \<times> scanner" where
  "state0 s c =
     (if c = CHR ''.'' then (scanContinue, s\<lparr> step := StepDot \<rparr>)
      else if c = CHR ''e'' \<or> c = CHR ''E'' then (scanContinue, s\<lparr> step := StepE \<rparr>)
      else stateEndValue s c)"

definition state1 :: "scanner \<Rightarrow> char \<Rightarrow> scan_code \<times> scanner" where
  "state1 s c =
     (if isDigit c then (scanContinue, s\<lparr> step := Step1 \<rparr>)
      else state0 s c)"

definition expect :: "scanner \<Rightarrow> char \<Rightarrow> char \<Rightarrow> step_fn \<Rightarrow> string \<Rightarrow> scan_code \<times> scanner" where
  "expect s c wanted next context =
     (if c = wanted then (scanContinue, s\<lparr> step := next \<rparr>) else error_at s c context)"

definition stateError :: "scanner \<Rightarrow> char \<Rightarrow> scan_code \<times> scanner" where
  "stateError s c = (scanError, s)"

fun apply_step :: "step_fn \<Rightarrow> scanner \<Rightarrow> char \<Rightarrow> scan_code \<times> scanner" where
  "apply_step StepBeginValueOrEmpty s c = stateBeginValueOrEmpty s c"
| "apply_step StepBeginValue s c = stateBeginValue s c"
| "apply_step StepBeginStringOrEmpty s c = stateBeginStringOrEmpty s c"
| "apply_step StepBeginString s c = stateBeginString s c"
| "apply_step StepEndValue s c = stateEndValue s c"
| "apply_step StepEndTop s c = stateEndTop s c"
| "apply_step StepInString s c = stateInString s c"
| "apply_step StepInStringEsc s c = stateInStringEsc s c"
| "apply_step StepInStringEscU s c = stateInStringEscU s c"
| "apply_step StepInStringEscU1 s c = stateInStringEscU1 s c"
| "apply_step StepInStringEscU12 s c = stateInStringEscU12 s c"
| "apply_step StepInStringEscU123 s c = stateInStringEscU123 s c"
| "apply_step StepNeg s c = stateNeg s c"
| "apply_step Step1 s c = state1 s c"
| "apply_step Step0 s c = state0 s c"
| "apply_step StepDot s c = stateDot s c"
| "apply_step StepDot0 s c = stateDot0 s c"
| "apply_step StepE s c = stateE s c"
| "apply_step StepESign s c = stateESign s c"
| "apply_step StepE0 s c = stateE0 s c"
| "apply_step StepT s c = expect s c (CHR ''r'') StepTr ''in literal true (expecting r)''"
| "apply_step StepTr s c = expect s c (CHR ''u'') StepTru ''in literal true (expecting u)''"
| "apply_step StepTru s c = expect s c (CHR ''e'') StepEndValue ''in literal true (expecting e)''"
| "apply_step StepF s c = expect s c (CHR ''a'') StepFa ''in literal false (expecting a)''"
| "apply_step StepFa s c = expect s c (CHR ''l'') StepFal ''in literal false (expecting l)''"
| "apply_step StepFal s c = expect s c (CHR ''s'') StepFals ''in literal false (expecting s)''"
| "apply_step StepFals s c = expect s c (CHR ''e'') StepEndValue ''in literal false (expecting e)''"
| "apply_step StepN s c = expect s c (CHR ''u'') StepNu ''in literal null (expecting u)''"
| "apply_step StepNu s c = expect s c (CHR ''l'') StepNul ''in literal null (expecting l)''"
| "apply_step StepNul s c = expect s c (CHR ''l'') StepEndValue ''in literal null (expecting l)''"
| "apply_step StepError s c = stateError s c"

definition scan_step :: "scanner \<Rightarrow> char \<Rightarrow> scan_code \<times> scanner" where
  "scan_step s c = apply_step (step s) s c"

definition eof :: "scanner \<Rightarrow> scan_code \<times> scanner" where
  "eof s =
     (if err s \<noteq> None then (scanError, s)
      else if endTop s then (scanEnd, s)
      else
        let s = snd (scan_step s (CHR '' ''))
        in if endTop s then (scanEnd, s)
           else (scanError,
                 if err s = None then s\<lparr> err := Some ''unexpected end of JSON input'' \<rparr> else s))"

fun checkValid_loop :: "scanner \<Rightarrow> string \<Rightarrow> string option + scanner" where
  "checkValid_loop s [] = Inr s"
| "checkValid_loop s (c # data) =
     (case scan_step s c of
        (code, s') \<Rightarrow> if code = scanError then Inl (err s') else checkValid_loop s' data)"

definition checkValid :: "string \<Rightarrow> string option" where
  "checkValid data =
     (case checkValid_loop reset data of
        Inl e \<Rightarrow> e
      | Inr s \<Rightarrow> (case eof s of (code, s') \<Rightarrow> if code = scanError then err s' else None))"

text \<open>
  \<open>json.Unmarshal(data, &gitCommitFormattedList)\<close>: the syntax check, then the decoding
  proper (\<open>d.unmarshal\<close>), which is the parameter \<open>decode\<close>. After a syntax error the list
  is still the \<open>nil\<close> it was declared as.
\<close>

definition Unmarshal :: "unmarshal \<Rightarrow> unmarshal" where
  "Unmarshal decode data =
     (case checkValid data of
        Some e \<Rightarrow> ([], Some (ErrOther e))
      | None \<Rightarrow> decode data)"

section \<open>Sample collaborators\<close>

text \<open>
  Concrete collaborators, used only to run the model on concrete inputs: a log output of
  two fragments in the format of section 6 of the specification, the fragments a decoder
  reads from it, a decoder that knows this text and two more (the empty array, and an
  array whose second element is a number, on which Go's decoder reports a type error
  after it has filled the list), command runners with a fixed output, and file systems
  with a fixed answer.
\<close>

definition sample_output :: string where
  "sample_output =
     ''{\"commit\":\"c2\",\"commiter\":{\"name\":\"Ann\",\"email\":\"ann@example.org\",\"date\":\"2024-05-02T10:00:00+02:00\"},\"subject\":\"second\",\"body\":\"more\"},'' @
     ''{\"commit\":\"c1\",\"commiter\":{\"name\":\"Bob\",\"email\":\"bob@example.org\",\"date\":\"2024-05-01T09:30:00+02:00\"},\"subject\":\"first\",\"body\":\"\"},''"

definition sample_fragments :: "GitCommitFormat list" where
  "sample_fragments =
     [\<lparr> GitCommitFormat.Commit = ''c2'',
         Commiter = \<lparr> Name = ''Ann'', Email = ''ann@example.org'',
                      GitPerson.Date = ''2024-05-02T10:00:00+02:00'' \<rparr>,
         Subject = ''second'', Body = ''more'' \<rparr>,
      \<lparr> GitCommitFormat.Commit = ''c1'',
         Commiter = \<lparr> Name = ''Bob'', Email = ''bob@example.org'',
                      GitPerson.Date = ''2024-05-01T09:30:00+02:00'' \<rparr>,
         Subject = ''first'', Body = [] \<rparr>]"

definition sample_fragment :: string where
  "sample_fragment =
     ''{\"commit\":\"c1\",\"commiter\":{\"name\":\"Bob\",\"email\":\"bob@example.org\",\"date\":\"2024-05-01T09:30:00+02:00\"},\"subject\":\"first\",\"body\":\"\"}''"

definition sample_mistyped_output :: string where
  "sample_mistyped_output = ''{\"commit\":\"c1\"},7,''"

definition sample_partial :: "GitCommitFormat list" where
  "sample_partial =
     [\<lparr> GitCommitFormat.Commit = ''c1'',
         Commiter = \<lparr> Name = [], Email = [], GitPerson.Date = [] \<rparr>,
         Subject = [], Body = [] \<rparr>,
      \<lparr> GitCommitFormat.Commit = [],
         Commiter = \<lparr> Name = [], Email = [], GitPerson.Date = [] \<rparr>,
         Subject = [], Body = [] \<rparr>]"

definition sample_decode :: unmarshal where
  "sample_decode data =
     (if data = repair sample_output then (sample_fragments, None)
      else if data = ''[]'' then ([], None)
      else if data = repair sample_mistyped_output
        then (sample_partial,
              Some (ErrOther ''json: cannot unmarshal number into Go value of type git.GitCommitFormat''))
      else ([], Some (ErrOther ''not a sample text'')))"

definition sample_GITFORMAT :: string where
  "sample_GITFORMAT =
     ''--pretty=format:{\"commit\":\"%H\",\"commiter\":{\"name\":\"%cN\",\"email\":\"%cE\",\"date\":\"%cd\"},\"subject\":\"%s\",\"body\":\"%b\"},''"

definition run_nothing :: "unit runCommand" where
  "run_nothing gitContext argv = ([], [], None)"

definition run_newline :: "unit runCommand" where
  "run_newline gitContext argv = ([CHR 0x0A], [], None)"

definition run_sample :: "unit runCommand" where
  "run_sample gitContext argv = (sample_output, [], None)"

definition abs_ok :: "string \<Rightarrow> string \<times> go_error" where
  "abs_ok path = (path, None)"

definition stat_absent :: "string \<Rightarrow> string \<Rightarrow> go_error" where
  "stat_absent path name = Some ErrNotExist"

definition stat_present :: "string \<Rightarrow> string \<Rightarrow> go_error" where
  "stat_present path name = None"

definition stat_denied :: "string \<Rightarrow> string \<Rightarrow> go_error" where
  "stat_denied path name = Some (ErrOther ''permission denied'')"

definition fetch_fails :: "unit fetchDiffStat" where
  "fetch_fails gitContext revisionA revisionB checkoutPath =
     ([], ''fatal: bad revision'', Some (ErrOther ''exit status 128''))"

definition fetch_echo :: "unit fetchDiffStat" where
  "fetch_echo gitContext revisionA revisionB checkoutPath =
     (revisionA @ ''|'' @ revisionB @ ''|'' @ checkoutPath, [], None)"

definition stat_text :: "string \<Rightarrow> string option \<times> go_error" where
  "stat_text fileStat = (Some fileStat, None)"

definition sample_commit :: GitCommitBase where
  "sample_commit = \<lparr> Commit = ''c1'', Author = ''Bob <bob@example.org>'',
      Date = ''2024-05-01T09:30:00+02:00'', Message = ''first'' @ [CHR 0x0A],
      CheckoutPath = ''/repo'' \<rparr>"

definition sample_commits :: "GitCommitBase list" where
  "sample_commits =
     [\<lparr> Commit = ''c2'', Author = ''Ann <ann@example.org>'',
         Date = ''2024-05-02T10:00:00+02:00'', Message = ''second'' @ [CHR 0x0A] @ ''more'',
         CheckoutPath = ''/repo'' \<rparr>,
      sample_commit]"

definition run_fails :: "unit runCommand" where
  "run_fails gitContext argv = ([], ''fatal: bad object 0123abc'', Some (ErrOther ''exit status 128''))"

section \<open>Proof vocabulary for the scanner\<close>

text \<open>
  \<open>lift b s\<close> is the scanner \<open>s\<close> with one more parse state \<open>b\<close> below its stack: the
  scanner that has read the same bytes after an opening bracket. \<open>inside s\<close>: the scanner
  is within a value, with no error so far. \<open>errs r\<close>: the step returned \<open>scanError\<close> and
  left an error value.
\<close>

definition lift :: "parse_state \<Rightarrow> scanner \<Rightarrow> scanner" where
  "lift b s = s\<lparr> parseState := b # parseState s \<rparr>"

definition inside :: "scanner \<Rightarrow> bool" where
  "inside s = (parseState s \<noteq> [] \<and> err s = None \<and> \<not> endTop s \<and> step s \<noteq> StepEndTop \<and> step s \<noteq> StepError)"

definition errs :: "scan_code \<times> scanner \<Rightarrow> bool" where
  "errs r = (fst r = scanError \<and> err (snd r) \<noteq> None)"

definition lifts :: "parse_state \<Rightarrow> scan_code \<times> scanner \<Rightarrow> scan_code \<times> scanner \<Rightarrow> bool" where
  "lifts b r r' = (r' = apsnd (lift b) r \<or> errs r')"

definition post :: "scan_code \<times> scanner \<Rightarrow> bool" where
  "post r = (errs r \<or> fst r \<noteq> scanError \<and>
      (inside (snd r) \<or> step (snd r) = StepEndTop \<and> err (snd r) = None \<and> endTop (snd r)))"

definition err_kept :: "scanner \<Rightarrow> bool" where
  "err_kept s = (step s = StepError \<longrightarrow> err s \<noteq> None)"

definition err_kept_result :: "scan_code \<times> scanner \<Rightarrow> bool" where
  "err_kept_result r = (err_kept (snd r) \<and> (fst r = scanError \<longrightarrow> err (snd r) \<noteq> None))"

section \<open>Helper lemmas\<close>

lemma appendCommits_map:
  "appendCommits root acc fs = acc @ map (toGitCommit root) fs"
  by (induction fs arbitrary: acc) simp_all

subsection \<open>The decoder on every output, and on the samples\<close>

lemma repair_butlast: "repair out = ''['' @ butlast out @ '']''"
  by (simp add: repair_def butlast_conv_take)

lemma processGitLogOutput_nonempty:
  "out \<noteq> [] \<Longrightarrow>
   processGitLogOutput unmarshal out root =
     (if snd (unmarshal (repair out)) \<noteq> None then ([], snd (unmarshal (repair out)))
      else (map (toGitCommit root) (fst (unmarshal (repair out))), None))"
  by (simp add: processGitLogOutput_def appendCommits_map split: prod.splits)

lemma checkValid_samples:
  "checkValid ''[]'' = None"
  "checkValid (repair sample_output) = None"
  "checkValid (repair sample_mistyped_output) = None"
  "checkValid sample_fragment = None"
  by code_simp+

lemma sample_decode_samples:
  "sample_decode ''[]'' = ([], None)"
  "sample_decode (repair sample_output) = (sample_fragments, None)"
  "sample_decode (repair sample_mistyped_output) =
     (sample_partial,
      Some (ErrOther ''json: cannot unmarshal number into Go value of type git.GitCommitFormat''))"
  by (simp_all add: sample_decode_def repair_def sample_output_def sample_mistyped_output_def)

lemma Unmarshal_samples:
  "Unmarshal sample_decode ''[]'' = ([], None)"
  "Unmarshal sample_decode (repair sample_output) = (sample_fragments, None)"
  "Unmarshal sample_decode (repair sample_mistyped_output) =
     (sample_partial,
      Some (ErrOther ''json: cannot unmarshal number into Go value of type git.GitCommitFormat''))"
  by (simp_all add: Unmarshal_def checkValid_samples sample_decode_samples)

lemma repair_newline: "repair [CHR 0x0A] = ''[]''"
  by (simp add: repair_def)

lemma Itoa_15: "Itoa 15 = ''15''"
  by code_simp

lemma toGitCommit_samples: "map (toGitCommit ''/repo'') sample_fragments = sample_commits"
  by (simp add: toGitCommit_def sample_fragments_def sample_commits_def sample_commit_def)

lemma sample_output_nonempty: "sample_output \<noteq> []" "sample_mistyped_output \<noteq> []"
  "sample_fragment \<noteq> []"
  by (simp_all add: sample_output_def sample_mistyped_output_def sample_fragment_def)

lemma processGitLogOutput_sample:
  "processGitLogOutput (Unmarshal sample_decode) sample_output ''/repo'' = (sample_commits, None)"
  by (simp add: processGitLogOutput_nonempty sample_output_nonempty Unmarshal_samples
        toGitCommit_samples)

lemma checkValid_unclosed_sample:
  "checkValid (repair sample_fragment) = Some ''after object key:value pair''"
  by code_simp

lemma sample_fragment_shape:
  "CHR ''{'' # butlast (tl sample_fragment) @ ''}'' = sample_fragment"
  by (simp add: sample_fragment_def)

subsection \<open>The scanner after one more opening bracket\<close>

lemma lift_simps [simp]:
  "step (lift b s) = step s" "err (lift b s) = err s" "endTop (lift b s) = endTop s"
  "parseState (lift b s) = b # parseState s"
  "lift b (s\<lparr> step := x \<rparr>) = (lift b s)\<lparr> step := x \<rparr>"
  "lift b (s\<lparr> err := y \<rparr>) = (lift b s)\<lparr> err := y \<rparr>"
  "lift b (s\<lparr> endTop := z \<rparr>) = (lift b s)\<lparr> endTop := z \<rparr>"
  by (simp_all add: lift_def)

lemma last_index_Cons: "st \<noteq> [] \<Longrightarrow> (b # st) ! (length st) = st ! (length st - 1)"
  by (cases st) simp_all

lemma update_last_Cons: "st \<noteq> [] \<Longrightarrow> (b # st)[length st := v] = b # st[length st - 1 := v]"
  by (cases st) simp_all

lemma take_last_Cons: "st \<noteq> [] \<Longrightarrow> take (length st) (b # st) = b # take (length st - 1) st"
  by (cases st) simp_all

lemma lift_update_top:
  "parseState s \<noteq> [] \<Longrightarrow>
   (lift b s)\<lparr> parseState := (b # parseState s)[length (parseState s) := v] \<rparr>
   = lift b (s\<lparr> parseState := (parseState s)[length (parseState s) - 1 := v] \<rparr>)"
  by (simp add: lift_def update_last_Cons del: list_update.simps)

lemma error_at_lift: "error_at (lift b s) c m = apsnd (lift b) (error_at s c m)"
  by (simp add: error_at_def)

lemma error_at_errs: "errs (error_at s c m)"
  by (simp add: error_at_def errs_def)

lemma stateEndTop_lift: "stateEndTop (lift b s) c = apsnd (lift b) (stateEndTop s c)"
  by (simp add: stateEndTop_def error_at_def)

lemma stateEndValue_lift:
  assumes "parseState s \<noteq> []" "parseState (snd (stateEndValue s c)) \<noteq> []"
  shows "stateEndValue (lift b s) c = apsnd (lift b) (stateEndValue s c)"
  using assms
  by (auto simp: stateEndValue_def popParseState_def error_at_def Let_def lift_def
        last_index_Cons update_last_Cons take_last_Cons simp del: list_update.simps
        split: parse_state.splits if_splits)

lemma space_not_close [simp]: "\<not> isSpace (CHR ''}'')" "\<not> isSpace (CHR '']'')" "isSpace (CHR '' '')"
  by (simp_all add: isSpace_def)

lemma lifts_eq: "r' = apsnd (lift b) r \<Longrightarrow> lifts b r r'"
  by (simp add: lifts_def)

lemma pushParseState_lift:
  "lifts b (pushParseState s c p ok) (pushParseState (lift b s) c p ok)"
  by (simp add: pushParseState_def lifts_def errs_def error_at_def Let_def lift_def)

lemma step_upd_lift: "(lift b s)\<lparr> step := x \<rparr> = lift b (s\<lparr> step := x \<rparr>)"
  by (simp add: lift_def)

lemma stateBeginValue_lift:
  "lifts b (stateBeginValue s c) (stateBeginValue (lift b s) c)"
  unfolding stateBeginValue_def
  by (simp add: pushParseState_lift step_upd_lift error_at_lift lifts_eq del: lift_simps)

lemma stateBeginValueOrEmpty_lift:
  assumes "parseState s \<noteq> []" "parseState (snd (stateBeginValueOrEmpty s c)) \<noteq> []"
  shows "lifts b (stateBeginValueOrEmpty s c) (stateBeginValueOrEmpty (lift b s) c)"
  using assms unfolding stateBeginValueOrEmpty_def
  by (auto simp: stateBeginValue_lift stateEndValue_lift lifts_eq split: if_splits)

lemma stateBeginString_lift:
  "stateBeginString (lift b s) c = apsnd (lift b) (stateBeginString s c)"
  by (simp add: stateBeginString_def error_at_def)

lemma stateBeginStringOrEmpty_lift:
  assumes "parseState s \<noteq> []" "parseState (snd (stateBeginStringOrEmpty s c)) \<noteq> []"
  shows "stateBeginStringOrEmpty (lift b s) c = apsnd (lift b) (stateBeginStringOrEmpty s c)"
  using assms unfolding stateBeginStringOrEmpty_def
  by (auto simp: stateBeginString_lift lift_update_top stateEndValue_lift Let_def
        simp del: list_update.simps split: if_splits)

lemma stateInString_lift:
  "stateInString (lift b s) c = apsnd (lift b) (stateInString s c)"
  by (simp add: stateInString_def error_at_def)

lemma stateInStringEsc_lift:
  "stateInStringEsc (lift b s) c = apsnd (lift b) (stateInStringEsc s c)"
  by (simp add: stateInStringEsc_def error_at_def)

lemma stateInStringEscU_lift:
  "stateInStringEscU (lift b s) c = apsnd (lift b) (stateInStringEscU s c)"
  "stateInStringEscU1 (lift b s) c = apsnd (lift b) (stateInStringEscU1 s c)"
  "stateInStringEscU12 (lift b s) c = apsnd (lift b) (stateInStringEscU12 s c)"
  "stateInStringEscU123 (lift b s) c = apsnd (lift b) (stateInStringEscU123 s c)"
  by (simp_all add: stateInStringEscU_def stateInStringEscU1_def stateInStringEscU12_def
        stateInStringEscU123_def error_at_def)

lemma stateNeg_lift: "stateNeg (lift b s) c = apsnd (lift b) (stateNeg s c)"
  by (simp add: stateNeg_def error_at_def)

lemma stateE0_lift:
  assumes "parseState s \<noteq> []" "parseState (snd (stateE0 s c)) \<noteq> []"
  shows "stateE0 (lift b s) c = apsnd (lift b) (stateE0 s c)"
  using assms unfolding stateE0_def
  by (auto simp: stateEndValue_lift split: if_splits)

lemma stateESign_lift: "stateESign (lift b s) c = apsnd (lift b) (stateESign s c)"
  by (simp add: stateESign_def error_at_def)

lemma stateE_lift: "stateE (lift b s) c = apsnd (lift b) (stateE s c)"
  by (simp add: stateE_def stateESign_lift)

lemma stateDot0_lift:
  assumes "parseState s \<noteq> []" "parseState (snd (stateDot0 s c)) \<noteq> []"
  shows "stateDot0 (lift b s) c = apsnd (lift b) (stateDot0 s c)"
  using assms unfolding stateDot0_def
  by (auto simp: stateEndValue_lift split: if_splits)

lemma stateDot_lift: "stateDot (lift b s) c = apsnd (lift b) (stateDot s c)"
  by (simp add: stateDot_def error_at_def)

lemma state0_lift:
  assumes "parseState s \<noteq> []" "parseState (snd (state0 s c)) \<noteq> []"
  shows "state0 (lift b s) c = apsnd (lift b) (state0 s c)"
  using assms unfolding state0_def
  by (auto simp: stateEndValue_lift split: if_splits)

lemma state1_lift:
  assumes "parseState s \<noteq> []" "parseState (snd (state1 s c)) \<noteq> []"
  shows "state1 (lift b s) c = apsnd (lift b) (state1 s c)"
  using assms unfolding state1_def
  by (auto simp: state0_lift split: if_splits)

lemma expect_lift: "expect (lift b s) c w n m = apsnd (lift b) (expect s c w n m)"
  by (simp add: expect_def error_at_def)

lemma stateError_lift: "stateError (lift b s) c = apsnd (lift b) (stateError s c)"
  by (simp add: stateError_def)

lemma scan_step_lift:
  assumes "parseState s \<noteq> []" "parseState (snd (scan_step s c)) \<noteq> []"
  shows "lifts b (scan_step s c) (scan_step (lift b s) c)"
  using assms unfolding scan_step_def
  by (cases "step s")
     (simp_all add: lifts_eq stateBeginValueOrEmpty_lift stateBeginValue_lift
        stateBeginStringOrEmpty_lift stateBeginString_lift stateEndValue_lift stateEndTop_lift
        stateInString_lift stateInStringEsc_lift stateInStringEscU_lift stateNeg_lift
        state1_lift state0_lift stateDot_lift stateDot0_lift stateE_lift stateESign_lift
        stateE0_lift expect_lift stateError_lift)

subsection \<open>What one step does to a scanner inside a value\<close>

lemma post_error_at [simp]: "post (error_at s c m)"
  by (simp add: post_def errs_def error_at_def)

lemma post_keep: "inside s \<Longrightarrow> code \<noteq> scanError \<Longrightarrow> post (code, s)"
  by (simp add: post_def)

lemma post_step:
  "inside s \<Longrightarrow> code \<noteq> scanError \<Longrightarrow> x \<noteq> StepEndTop \<Longrightarrow> x \<noteq> StepError
   \<Longrightarrow> post (code, s\<lparr> step := x \<rparr>)"
  by (simp add: post_def inside_def)

lemma stateEndValue_post: "inside s \<Longrightarrow> post (stateEndValue s c)"
  by (auto simp: stateEndValue_def popParseState_def post_def errs_def inside_def error_at_def Let_def
        split: parse_state.splits)

lemma pushParseState_post:
  "inside s \<Longrightarrow> ok \<noteq> scanError \<Longrightarrow> x \<noteq> StepEndTop \<Longrightarrow> x \<noteq> StepError
   \<Longrightarrow> post (pushParseState (s\<lparr> step := x \<rparr>) c p ok)"
  by (simp add: pushParseState_def post_def errs_def inside_def error_at_def Let_def)

lemma stateBeginValue_post: "inside s \<Longrightarrow> post (stateBeginValue s c)"
  by (simp add: stateBeginValue_def pushParseState_post post_step post_keep)

lemma stateBeginValueOrEmpty_post: "inside s \<Longrightarrow> post (stateBeginValueOrEmpty s c)"
  by (simp add: stateBeginValueOrEmpty_def stateBeginValue_post stateEndValue_post post_keep)

lemma stateBeginString_post: "inside s \<Longrightarrow> post (stateBeginString s c)"
  by (simp add: stateBeginString_def post_step post_keep)

lemma inside_update_top:
  "inside s \<Longrightarrow> inside (s\<lparr> parseState := (parseState s)[i := v] \<rparr>)"
  by (simp add: inside_def)

lemma stateBeginStringOrEmpty_post: "inside s \<Longrightarrow> post (stateBeginStringOrEmpty s c)"
  by (simp add: stateBeginStringOrEmpty_def stateBeginString_post stateEndValue_post
        inside_update_top post_keep Let_def del: list_update.simps)

lemma stateInString_post: "inside s \<Longrightarrow> post (stateInString s c)"
  by (simp add: stateInString_def post_step post_keep)

lemma stateInStringEsc_post: "inside s \<Longrightarrow> post (stateInStringEsc s c)"
  by (simp add: stateInStringEsc_def post_step)

lemma stateInStringEscU_post:
  "inside s \<Longrightarrow> post (stateInStringEscU s c)"
  "inside s \<Longrightarrow> post (stateInStringEscU1 s c)"
  "inside s \<Longrightarrow> post (stateInStringEscU12 s c)"
  "inside s \<Longrightarrow> post (stateInStringEscU123 s c)"
  by (simp_all add: stateInStringEscU_def stateInStringEscU1_def stateInStringEscU12_def
        stateInStringEscU123_def post_step)

lemma number_post:
  "inside s \<Longrightarrow> post (stateNeg s c)"
  "inside s \<Longrightarrow> post (stateE0 s c)"
  "inside s \<Longrightarrow> post (stateESign s c)"
  "inside s \<Longrightarrow> post (stateE s c)"
  "inside s \<Longrightarrow> post (stateDot0 s c)"
  "inside s \<Longrightarrow> post (stateDot s c)"
  "inside s \<Longrightarrow> post (state0 s c)"
  "inside s \<Longrightarrow> post (state1 s c)"
  by (simp_all add: stateNeg_def stateE0_def stateESign_def stateE_def stateDot0_def stateDot_def
        state0_def state1_def stateEndValue_post post_step post_keep)

lemma expect_post:
  "inside s \<Longrightarrow> n \<noteq> StepEndTop \<Longrightarrow> n \<noteq> StepError \<Longrightarrow> post (expect s c w n m)"
  by (simp add: expect_def post_step)

lemma scan_step_post: "inside s \<Longrightarrow> post (scan_step s c)"
  unfolding scan_step_def
  by (cases "step s")
     (simp_all add: stateBeginValueOrEmpty_post stateBeginValue_post stateBeginStringOrEmpty_post
        stateBeginString_post stateEndValue_post stateInString_post stateInStringEsc_post
        stateInStringEscU_post number_post expect_post, simp_all add: inside_def)

subsection \<open>Only a closing bracket ends the top-level value\<close>

lemma char_simps [simp]:
  "\<not> isDigit (CHR ''}'')" "\<not> isDigit (CHR '']'')" "\<not> isDigit (CHR '' '')"
  by (simp_all add: isDigit_def)

lemma stateEndValue_endTop:
  assumes "inside s" "endTop (snd (stateEndValue s c))"
  shows "c = CHR ''}'' \<and> parseState s ! (length (parseState s) - 1) = parseObjectValue
         \<or> c = CHR '']'' \<and> parseState s ! (length (parseState s) - 1) = parseArrayValue"
  using assms
  by (auto simp: stateEndValue_def popParseState_def inside_def error_at_def Let_def
        split: parse_state.splits if_splits)

lemma stateEndValue_close:
  assumes "inside s" "endTop (snd (stateEndValue s (CHR ''}'')))"
  shows "errs (stateEndValue (lift b s) (CHR '']''))"
proof -
  from stateEndValue_endTop [OF assms]
  have top: "parseState s ! (length (parseState s) - 1) = parseObjectValue" by simp
  from assms(1) have "parseState s \<noteq> []" by (simp add: inside_def)
  with top show ?thesis
    by (simp add: stateEndValue_def errs_def error_at_def last_index_Cons)
qed

lemma stateEndValue_space:
  "inside s \<Longrightarrow> \<not> endTop (snd (stateEndValue s (CHR '' '')))"
  using stateEndValue_endTop [of s "CHR '' ''"] by auto

lemma scan_step_close:
  assumes "inside s" "endTop (snd (scan_step s (CHR ''}'')))"
  shows "errs (scan_step (lift b s) (CHR '']''))"
proof (cases "step s = StepBeginStringOrEmpty")
  case True
  then show ?thesis
    by (simp add: scan_step_def stateBeginStringOrEmpty_def stateBeginString_def error_at_errs)
next
  case False
  with assms show ?thesis
    unfolding scan_step_def
    by (cases "step s")
       (simp_all add: stateBeginValueOrEmpty_def stateBeginValue_def stateBeginString_def
          stateInString_def stateInStringEsc_def stateInStringEscU_def stateInStringEscU1_def
          stateInStringEscU12_def stateInStringEscU123_def stateNeg_def stateE0_def
          stateESign_def stateE_def stateDot0_def stateDot_def state0_def state1_def expect_def
          stateError_def stateEndTop_def error_at_def inside_def isHex_def stateEndValue_close)
qed

lemma scan_step_space:
  assumes "inside s"
  shows "\<not> endTop (snd (scan_step s (CHR '' '')))"
  using assms unfolding scan_step_def
  by (cases "step s")
     (simp_all add: stateBeginValueOrEmpty_def stateBeginValue_def stateBeginString_def
        stateBeginStringOrEmpty_def
        stateInString_def stateInStringEsc_def stateInStringEscU_def stateInStringEscU1_def
        stateInStringEscU12_def stateInStringEscU123_def stateNeg_def stateE0_def
        stateESign_def stateE_def stateDot0_def stateDot_def state0_def state1_def expect_def
        stateError_def stateEndTop_def error_at_def isHex_def stateEndValue_space,
      simp_all add: inside_def)

subsection \<open>A scan error always carries its error value\<close>

lemma err_kept_error_at [simp]: "err_kept_result (error_at s c m)"
  by (simp add: err_kept_result_def err_kept_def error_at_def)

lemma err_kept_step: "x \<noteq> StepError \<Longrightarrow> code \<noteq> scanError \<Longrightarrow> err_kept_result (code, s\<lparr> step := x \<rparr>)"
  by (simp add: err_kept_result_def err_kept_def)

lemma err_kept_keep: "err_kept s \<Longrightarrow> code \<noteq> scanError \<Longrightarrow> err_kept_result (code, s)"
  by (simp add: err_kept_result_def)

lemma stateEndTop_err_kept: "err_kept s \<Longrightarrow> err_kept_result (stateEndTop s c)"
  by (simp add: stateEndTop_def err_kept_result_def err_kept_def error_at_def)

lemma stateEndValue_err_kept: "err_kept s \<Longrightarrow> err_kept_result (stateEndValue s c)"
  by (auto simp: stateEndValue_def stateEndTop_def popParseState_def err_kept_result_def err_kept_def
        error_at_def Let_def split: parse_state.splits)

lemma pushParseState_err_kept:
  "x \<noteq> StepError \<Longrightarrow> ok \<noteq> scanError \<Longrightarrow> err_kept_result (pushParseState (s\<lparr> step := x \<rparr>) c p ok)"
  by (simp add: pushParseState_def err_kept_result_def err_kept_def error_at_def Let_def)

lemma err_kept_update_top: "err_kept s \<Longrightarrow> err_kept (s\<lparr> parseState := st \<rparr>)"
  by (simp add: err_kept_def)

lemma scan_step_err_kept: "err_kept s \<Longrightarrow> err_kept_result (scan_step s c)"
  unfolding scan_step_def
  by (cases "step s")
     (simp_all add: stateBeginValueOrEmpty_def stateBeginValue_def stateBeginString_def
        stateBeginStringOrEmpty_def
        stateInString_def stateInStringEsc_def stateInStringEscU_def stateInStringEscU1_def
        stateInStringEscU12_def stateInStringEscU123_def stateNeg_def stateE0_def
        stateESign_def stateE_def stateDot0_def stateDot_def state0_def state1_def expect_def
        stateEndTop_err_kept stateEndValue_err_kept pushParseState_err_kept err_kept_step err_kept_keep err_kept_update_top Let_def
        del: list_update.simps,
      simp add: stateError_def err_kept_result_def err_kept_def)

lemma checkValid_loop_Inl:
  "err_kept s \<Longrightarrow> checkValid_loop s data = Inl e \<Longrightarrow> e \<noteq> None"
proof (induction data arbitrary: s)
  case Nil
  then show ?case by simp
next
  case (Cons c data)
  obtain code s' where st: "scan_step s c = (code, s')" by (cases "scan_step s c")
  from scan_step_err_kept [OF Cons.prems(1), of c] st
  have w: "err_kept s'" and e: "code = scanError \<longrightarrow> err s' \<noteq> None"
    by (simp_all add: err_kept_result_def)
  show ?case
  proof (cases "code = scanError")
    case True
    with Cons.prems(2) st e show ?thesis by auto
  next
    case False
    with Cons.prems(2) st have "checkValid_loop s' data = Inl e" by simp
    with Cons.IH w show ?thesis by blast
  qed
qed

lemma endTop_dead:
  "step s = StepEndTop \<Longrightarrow> \<not> isSpace c \<Longrightarrow> checkValid_loop s (data @ [c]) = Inr t \<Longrightarrow> err t \<noteq> None"
proof (induction data arbitrary: s)
  case Nil
  then show ?case by (auto simp: scan_step_def stateEndTop_def error_at_def)
next
  case (Cons d data)
  show ?case
  proof (cases "isSpace d")
    case True
    with Cons.prems have "checkValid_loop s (data @ [c]) = Inr t"
      by (simp add: scan_step_def stateEndTop_def)
    with Cons show ?thesis by blast
  next
    case False
    with Cons.prems have "False"
      by (cases data) (simp_all add: scan_step_def stateEndTop_def error_at_def stateError_def)
    then show ?thesis ..
  qed
qed

subsection \<open>An object without its closing brace, wrapped in brackets\<close>

lemma eof_inside: "inside t \<Longrightarrow> fst (eof t) = scanError"
  using scan_step_space [of t] by (simp add: eof_def inside_def Let_def)

lemma eof_err: "err t \<noteq> None \<Longrightarrow> fst (eof t) = scanError"
  by (simp add: eof_def)

lemma eof_error: "eof t = (scanError, t') \<Longrightarrow> err t' \<noteq> None"
  by (auto simp: eof_def Let_def split: if_splits)

lemma unclosed_object_loop:
  assumes "inside s" "checkValid_loop s (body @ ''}'') = Inr t" "fst (eof t) \<noteq> scanError"
  shows "\<exists>e. checkValid_loop (lift b s) (body @ '']'') = Inl (Some e)"
  using assms
proof (induction body arbitrary: s)
  case Nil
  obtain code s' where st: "scan_step s (CHR ''}'') = (code, s')"
    by (cases "scan_step s (CHR ''}'')")
  with Nil.prems(2) have code: "code \<noteq> scanError" and t: "t = s'"
    by (auto split: if_splits)
  from scan_step_post [OF Nil.prems(1), of "CHR ''}''"] st code
  have "inside s' \<or> endTop s'" by (auto simp: post_def errs_def)
  with Nil.prems(3) t eof_inside have "endTop s'" by blast
  with st have "endTop (snd (scan_step s (CHR ''}'')))" by simp
  from scan_step_close [OF Nil.prems(1) this, of b]
  show ?case by (cases "scan_step (lift b s) (CHR '']'')") (auto simp: errs_def)
next
  case (Cons c body)
  obtain code s' where st: "scan_step s c = (code, s')" by (cases "scan_step s c")
  with Cons.prems(2) have code: "code \<noteq> scanError"
    and rest: "checkValid_loop s' (body @ ''}'') = Inr t"
    by (auto split: if_splits)
  from scan_step_post [OF Cons.prems(1), of c] st code
  have "inside s' \<or> step s' = StepEndTop" by (auto simp: post_def errs_def)
  moreover have "step s' \<noteq> StepEndTop"
  proof
    assume "step s' = StepEndTop"
    from endTop_dead [OF this _ rest [simplified]] have "err t \<noteq> None" by simp
    with Cons.prems(3) eof_err show False by blast
  qed
  ultimately have ins: "inside s'" by blast
  from Cons.prems(1) have "parseState s \<noteq> []" by (simp add: inside_def)
  moreover from ins st have "parseState (snd (scan_step s c)) \<noteq> []" by (simp add: inside_def)
  ultimately have "lifts b (scan_step s c) (scan_step (lift b s) c)"
    by (rule scan_step_lift)
  with st have "scan_step (lift b s) c = (code, lift b s') \<or> errs (scan_step (lift b s) c)"
    by (simp add: lifts_def)
  then show ?case
  proof
    assume "scan_step (lift b s) c = (code, lift b s')"
    with code Cons.IH [OF ins rest Cons.prems(3)] show ?thesis by simp
  next
    assume "errs (scan_step (lift b s) c)"
    then show ?thesis by (cases "scan_step (lift b s) c") (auto simp: errs_def)
  qed
qed

lemma unclosed_object_invalid:
  assumes "checkValid (CHR ''{'' # body @ ''}'') = None"
  shows "\<exists>e. checkValid (CHR ''['' # CHR ''{'' # body @ '']'') = Some e"
proof -
  define s1 where "s1 = \<lparr> step = StepBeginStringOrEmpty, endTop = False,
    parseState = [parseObjectKey], err = None \<rparr>"
  have first: "scan_step reset (CHR ''{'') = (scanBeginObject, s1)"
    by (simp add: scan_step_def reset_def stateBeginValue_def pushParseState_def isSpace_def
          maxNestingDepth_def s1_def)
  have ins: "inside s1" by (simp add: inside_def s1_def)
  have kept: "err_kept s1" by (simp add: err_kept_def s1_def)
  have start: "checkValid_loop reset (CHR ''{'' # body @ ''}'') = checkValid_loop s1 (body @ ''}'')"
    by (simp add: first)
  obtain t where run: "checkValid_loop s1 (body @ ''}'') = Inr t"
  proof (cases "checkValid_loop s1 (body @ ''}'')")
    case (Inl e)
    with checkValid_loop_Inl [OF kept Inl] assms start have False
      by (simp add: checkValid_def)
    then show ?thesis ..
  next
    case (Inr t)
    then show ?thesis by (rule that)
  qed
  have fin: "fst (eof t) \<noteq> scanError"
  proof
    assume "fst (eof t) = scanError"
    then obtain t' where e: "eof t = (scanError, t')" by (cases "eof t") simp
    with assms start run have "err t' = None" by (simp add: checkValid_def)
    with eof_error [OF e] show False by simp
  qed
  from unclosed_object_loop [OF ins run fin, of parseArrayValue]
  obtain e where bad: "checkValid_loop (lift parseArrayValue s1) (body @ '']'') = Inl (Some e)" ..
  have "checkValid_loop reset (CHR ''['' # CHR ''{'' # body @ '']'')
        = checkValid_loop (lift parseArrayValue s1) (body @ '']'')"
    by (simp add: scan_step_def reset_def stateBeginValue_def stateBeginValueOrEmpty_def
          pushParseState_def isSpace_def maxNestingDepth_def s1_def lift_def)
  with bad show ?thesis by (simp add: checkValid_def)
qed

section \<open>Claims\<close>

subsection \<open>C1: a show query that decodes to no commit\<close>

text \<open>
  C1, as stated, fails. The claim: when the show query succeeds as a process and its
  output decodes to zero commits, \<open>GetCommitForHash\<close> and \<open>GetCommitsForTag\<close> fail with a
  NotFoundError. The guard of \<open>GitShow\<close> is \<open>err != nil || len(commits) == 0\<close> and it
  returns \<open>nil, err\<close>, where \<open>err\<close> is \<open>nil\<close> when the list is merely empty. A process
  that succeeds with no output, and one that prints a lone newline (repaired to the empty
  array), both give the nil commit with the nil error.
\<close>

theorem C1_no_NotFoundError:
  "GetCommitForHash run_nothing (Unmarshal sample_decode) sample_GITFORMAT () ''/repo'' ''0123abc''
     = (None, None)
   \<and> GetCommitsForTag run_newline (Unmarshal sample_decode) sample_GITFORMAT () ''/repo'' ''v1.0''
     = (None, None)"
  by (simp add: GetCommitForHash_def GetCommitsForTag_def GitShow_def run_nothing_def
        run_newline_def processGitLogOutput_def Unmarshal_samples repair_newline)

text \<open>
  C1, amended. For every ref whose show query succeeds as a process and returns an
  output that decodes to zero commits with no decoding error, \<open>GitShow\<close>,
  \<open>GetCommitForHash\<close> and \<open>GetCommitsForTag\<close> return the nil commit together with
  the nil error: no error is raised, whatever the decoder and the format are.
\<close>

theorem C1_zero_commits_nil_nil:
  assumes "runCommand gitContext
             [''git'', ''-C'', root, ''show'', ref, ''--date=iso-strict'', GITFORMAT, ''-s'']
           = (output, errMsg, None)"
    and "processGitLogOutput unmarshal output root = ([], None)"
  shows "GitShow runCommand unmarshal GITFORMAT gitContext root ref = (None, None)
       \<and> GetCommitForHash runCommand unmarshal GITFORMAT gitContext root ref = (None, None)
       \<and> GetCommitsForTag runCommand unmarshal GITFORMAT gitContext root ref = (None, None)"
  using assms by (simp add: GetCommitForHash_def GetCommitsForTag_def GitShow_def)

text \<open>The amended C1 at the tag \<open>v1.0\<close>, for a process that prints a lone newline.\<close>

theorem C1_zero_commits_nil_nil_witness:
  "run_newline () [''git'', ''-C'', ''/repo'', ''show'', ''v1.0'', ''--date=iso-strict'', sample_GITFORMAT, ''-s'']
     = ([CHR 0x0A], [], None)
   \<and> processGitLogOutput (Unmarshal sample_decode) [CHR 0x0A] ''/repo'' = ([], None)
   \<and> GitShow run_newline (Unmarshal sample_decode) sample_GITFORMAT () ''/repo'' ''v1.0'' = (None, None)
   \<and> GetCommitForHash run_newline (Unmarshal sample_decode) sample_GITFORMAT () ''/repo'' ''v1.0'' = (None, None)
   \<and> GetCommitsForTag run_newline (Unmarshal sample_decode) sample_GITFORMAT () ''/repo'' ''v1.0'' = (None, None)"
proof -
  have r: "run_newline () [''git'', ''-C'', ''/repo'', ''show'', ''v1.0'', ''--date=iso-strict'', sample_GITFORMAT, ''-s'']
     = ([CHR 0x0A], [], None)"
    by (simp add: run_newline_def)
  have p: "processGitLogOutput (Unmarshal sample_decode) [CHR 0x0A] ''/repo'' = ([], None)"
    by (simp add: processGitLogOutput_def repair_newline Unmarshal_samples)
  from C1_zero_commits_nil_nil [where runCommand = run_newline and gitContext = "()"
      and unmarshal = "Unmarshal sample_decode", OF r p] r p
  show ?thesis by simp
qed

subsection \<open>C2: opening an existing checkout\<close>

text \<open>
  C2, as stated, fails in its first half. The claim: when the stat of \<open>.git\<close> reports
  not-found, \<open>OpenRepoPlain\<close> fails with a NotARepositoryError and returns no handle.
  \<open>openGitRepo\<close> returns the stat's error only when it is not a not-found error, and
  \<open>nil\<close> otherwise, so a checkout without \<open>.git\<close> is opened.
\<close>

theorem C2_absent_metadata_opens:
  "OpenRepoPlain abs_ok stat_absent ''/srv/checkout'' = (Some \<lparr> rootDir = ''/srv/checkout'' \<rparr>, None)"
  by (simp add: OpenRepoPlain_def openGitRepo_def abs_ok_def stat_absent_def)

text \<open>
  C2, amended. For every checkoutPath that \<open>filepath.Abs\<close> resolves: when the stat of
  \<open>.git\<close> reports not-found, and when it succeeds, \<open>OpenRepoPlain\<close> returns a handle
  whose \<open>rootDir\<close> equals checkoutPath and no error; when the stat fails with any other
  error, it returns no handle and that error.
\<close>

theorem C2_open_truth_table:
  assumes "snd (Abs checkoutPath) = None"
  shows "(IsNotExist (Stat checkoutPath ''.git'') \<longrightarrow>
            OpenRepoPlain Abs Stat checkoutPath = (Some \<lparr> rootDir = checkoutPath \<rparr>, None))
       \<and> (Stat checkoutPath ''.git'' = None \<longrightarrow>
            OpenRepoPlain Abs Stat checkoutPath = (Some \<lparr> rootDir = checkoutPath \<rparr>, None))
       \<and> (\<forall>e. Stat checkoutPath ''.git'' = Some e \<and> \<not> IsNotExist (Some e) \<longrightarrow>
            OpenRepoPlain Abs Stat checkoutPath = (None, Some e))"
  using assms by (auto simp: OpenRepoPlain_def openGitRepo_def Let_def)

text \<open>
  The amended C2 at \<open>/srv/checkout\<close>, for a missing \<open>.git\<close>, a present one and one
  whose stat is denied.
\<close>

theorem C2_open_truth_table_witness:
  "snd (abs_ok ''/srv/checkout'') = None
   \<and> IsNotExist (stat_absent ''/srv/checkout'' ''.git'')
   \<and> OpenRepoPlain abs_ok stat_absent ''/srv/checkout'' = (Some \<lparr> rootDir = ''/srv/checkout'' \<rparr>, None)
   \<and> stat_present ''/srv/checkout'' ''.git'' = None
   \<and> OpenRepoPlain abs_ok stat_present ''/srv/checkout'' = (Some \<lparr> rootDir = ''/srv/checkout'' \<rparr>, None)
   \<and> stat_denied ''/srv/checkout'' ''.git'' = Some (ErrOther ''permission denied'')
   \<and> \<not> IsNotExist (Some (ErrOther ''permission denied''))
   \<and> OpenRepoPlain abs_ok stat_denied ''/srv/checkout'' = (None, Some (ErrOther ''permission denied''))"
proof -
  have a: "snd (abs_ok ''/srv/checkout'') = None" by (simp add: abs_ok_def)
  have n: "IsNotExist (stat_absent ''/srv/checkout'' ''.git'')" by (simp add: stat_absent_def)
  have p: "stat_present ''/srv/checkout'' ''.git'' = None" by (simp add: stat_present_def)
  have d: "stat_denied ''/srv/checkout'' ''.git'' = Some (ErrOther ''permission denied'')"
    by (simp add: stat_denied_def)
  from C2_open_truth_table [of abs_ok "''/srv/checkout''" stat_absent, OF a] n
  have 1: "OpenRepoPlain abs_ok stat_absent ''/srv/checkout'' = (Some \<lparr> rootDir = ''/srv/checkout'' \<rparr>, None)"
    by blast
  from C2_open_truth_table [of abs_ok "''/srv/checkout''" stat_present, OF a] p
  have 2: "OpenRepoPlain abs_ok stat_present ''/srv/checkout'' = (Some \<lparr> rootDir = ''/srv/checkout'' \<rparr>, None)"
    by blast
  from C2_open_truth_table [of abs_ok "''/srv/checkout''" stat_denied, OF a] d
  have 3: "OpenRepoPlain abs_ok stat_denied ''/srv/checkout'' = (None, Some (ErrOther ''permission denied''))"
    by simp
  from a n p d 1 2 3 show ?thesis by simp
qed

subsection \<open>C3: the range argument\<close>

text \<open>
  C3. For every branchRef, from and to, \<open>getCommandForLogRange\<close> puts exactly one range
  argument between the base and the extra arguments, chosen in this precedence: from and
  to both non-empty give \<open>from^..to\<close>; only from non-empty gives \<open>from^..branchRef\<close>; only
  to non-empty gives \<open>to\<close>; with both empty the range arguments stay the ones passed in,
  which \<open>GetCommits\<close>, the only caller, sets to branchRef itself.
\<close>

theorem C3_range_precedence:
  "(from \<noteq> [] \<and> to \<noteq> [] \<longrightarrow>
      getCommandForLogRange branchRef from to rangeCmdArgs baseCmdArgs extraCmdArgs
        = baseCmdArgs @ [from @ ''^..'' @ to] @ extraCmdArgs)
 \<and> (from \<noteq> [] \<and> to = [] \<longrightarrow>
      getCommandForLogRange branchRef from to rangeCmdArgs baseCmdArgs extraCmdArgs
        = baseCmdArgs @ [from @ ''^..'' @ branchRef] @ extraCmdArgs)
 \<and> (from = [] \<and> to \<noteq> [] \<longrightarrow>
      getCommandForLogRange branchRef from to rangeCmdArgs baseCmdArgs extraCmdArgs
        = baseCmdArgs @ [to] @ extraCmdArgs)
 \<and> (from = [] \<and> to = [] \<longrightarrow>
      getCommandForLogRange branchRef from to rangeCmdArgs baseCmdArgs extraCmdArgs
        = baseCmdArgs @ rangeCmdArgs @ extraCmdArgs
      \<and> GetCommits_cmdArgs GITFORMAT branchRef root numCommits from to
        = [''-C'', root, ''log''] @ [branchRef]
          @ [''-n'', Itoa numCommits, ''--date=iso-strict'', GITFORMAT])"
  by (simp add: getCommandForLogRange_def GetCommits_cmdArgs_def)

text \<open>
  C3 on the branch \<open>main\<close> with the boundaries \<open>A\<close> and \<open>B\<close>, one input for each of the
  four cases; the second is the scenario of the specification (\<open>A^..main\<close>).
\<close>

theorem C3_range_precedence_witness:
  "getCommandForLogRange ''main'' ''A'' ''B'' [''main''] [''-C'', ''/repo'', ''log''] [''-n'', ''15'']
     = [''-C'', ''/repo'', ''log'', ''A^..B'', ''-n'', ''15'']
 \<and> getCommandForLogRange ''main'' ''A'' [] [''main''] [''-C'', ''/repo'', ''log''] [''-n'', ''15'']
     = [''-C'', ''/repo'', ''log'', ''A^..main'', ''-n'', ''15'']
 \<and> getCommandForLogRange ''main'' [] ''B'' [''main''] [''-C'', ''/repo'', ''log''] [''-n'', ''15'']
     = [''-C'', ''/repo'', ''log'', ''B'', ''-n'', ''15'']
 \<and> getCommandForLogRange ''main'' [] [] [''main''] [''-C'', ''/repo'', ''log''] [''-n'', ''15'']
     = [''-C'', ''/repo'', ''log'', ''main'', ''-n'', ''15'']
 \<and> GetCommits_cmdArgs ''%H'' ''main'' ''/repo'' 15 [] []
     = [''-C'', ''/repo'', ''log'', ''main'', ''-n'', ''15'', ''--date=iso-strict'', ''%H'']"
  using
    C3_range_precedence [of "''A''" "''B''" "''main''" "[''main'']" "[''-C'', ''/repo'', ''log'']"
      "[''-n'', ''15'']"]
    C3_range_precedence [of "''A''" "[]" "''main''" "[''main'']" "[''-C'', ''/repo'', ''log'']"
      "[''-n'', ''15'']"]
    C3_range_precedence [of "[]" "''B''" "''main''" "[''main'']" "[''-C'', ''/repo'', ''log'']"
      "[''-n'', ''15'']"]
    C3_range_precedence [of "[]" "[]" "''main''" "[''main'']" "[''-C'', ''/repo'', ''log'']"
      "[''-n'', ''15'']" "''%H''" "''/repo''" 15]
  by (simp add: Itoa_15)

subsection \<open>C10: the extra arguments come after the range\<close>

text \<open>
  C10. In all four range cases the argument list of the history query is \<open>-C\<close>, the root
  directory and \<open>log\<close>, then the one range argument, then \<open>-n\<close>, the commit count in
  decimal, \<open>--date=iso-strict\<close> and the format template, in this order; and this list,
  after the program name, is the command \<open>GetCommits\<close> runs and whose output it decodes.
\<close>

theorem C10_extra_args_after_range:
  "\<exists>range. range \<in> set [from @ ''^..'' @ to, from @ ''^..'' @ branchRef, to, branchRef]
     \<and> GetCommits_cmdArgs GITFORMAT branchRef root numCommits from to
         = [''-C'', root, ''log''] @ [range]
           @ [''-n'', Itoa numCommits, ''--date=iso-strict'', GITFORMAT]
     \<and> GetCommits runCommand unmarshal GITFORMAT gitContext branchRef branch root numCommits from to
         = (case runCommand gitContext
                  (''git'' # [''-C'', root, ''log''] @ [range]
                     @ [''-n'', Itoa numCommits, ''--date=iso-strict'', GITFORMAT]) of
              (output, errMsg, Some e) \<Rightarrow> ([], Some e)
            | (output, errMsg, None) \<Rightarrow>
                (case processGitLogOutput unmarshal output root of
                   (commits, Some e) \<Rightarrow> ([], Some e)
                 | (commits, None) \<Rightarrow> (commits, None)))"
proof -
  let ?cmd = "\<lambda>range. [''-C'', root, ''log''] @ [range]
           @ [''-n'', Itoa numCommits, ''--date=iso-strict'', GITFORMAT]"
  have run: "GetCommits runCommand unmarshal GITFORMAT gitContext branchRef branch root numCommits from to
         = (case runCommand gitContext
                  (''git'' # GetCommits_cmdArgs GITFORMAT branchRef root numCommits from to) of
              (output, errMsg, Some e) \<Rightarrow> ([], Some e)
            | (output, errMsg, None) \<Rightarrow>
                (case processGitLogOutput unmarshal output root of
                   (commits, Some e) \<Rightarrow> ([], Some e)
                 | (commits, None) \<Rightarrow> (commits, None)))"
    by (simp add: GetCommits_def split: prod.splits option.splits)
  obtain range where mem: "range \<in> set [from @ ''^..'' @ to, from @ ''^..'' @ branchRef, to, branchRef]"
    and args: "GetCommits_cmdArgs GITFORMAT branchRef root numCommits from to = ?cmd range"
  proof (cases "from \<noteq> [] \<and> to \<noteq> []")
    case True
    then show ?thesis
      by (intro that [of "from @ ''^..'' @ to"])
         (simp_all add: GetCommits_cmdArgs_def getCommandForLogRange_def)
  next
    case both: False
    show ?thesis
    proof (cases "from \<noteq> []")
      case True
      with both show ?thesis
        by (intro that [of "from @ ''^..'' @ branchRef"])
           (simp_all add: GetCommits_cmdArgs_def getCommandForLogRange_def)
    next
      case no_from: False
      show ?thesis
      proof (cases "to \<noteq> []")
        case True
        with no_from show ?thesis
          by (intro that [of to])
             (simp_all add: GetCommits_cmdArgs_def getCommandForLogRange_def)
      next
        case False
        with no_from show ?thesis
          by (intro that [of branchRef])
             (simp_all add: GetCommits_cmdArgs_def getCommandForLogRange_def)
      qed
    qed
  qed
  from mem args run show ?thesis
    by (intro exI [of _ range]) (simp only: simp_thms)
qed

text \<open>C10 for fifteen commits of \<open>main\<close> since \<open>A\<close>.\<close>

theorem C10_extra_args_after_range_witness:
  "GetCommits_cmdArgs sample_GITFORMAT ''main'' ''/repo'' 15 ''A'' []
     = [''-C'', ''/repo'', ''log'', ''A^..main'', ''-n'', ''15'', ''--date=iso-strict'', sample_GITFORMAT]"
  using C10_extra_args_after_range [of "''A''" "[]" "''main''" sample_GITFORMAT "''/repo''" 15
      run_sample sample_decode "()" "''main''"]
  by (simp add: Itoa_15 GetCommits_cmdArgs_def getCommandForLogRange_def)

subsection \<open>C7: the statistics of one commit\<close>

text \<open>
  C7. For every commit, \<open>GetCommitStats\<close> asks for the diff-stat with the commit's own
  hash as the first revision, the empty string as the second and the commit's checkout
  path. When that query returns an error, the result is no FileStats and that error;
  otherwise it is what \<open>getFileStat\<close> makes of the query's text. Nothing else of the
  diff-stat collaborator is used: two collaborators that agree on this one query give the
  same result.
\<close>

theorem C7_stats_for_commit:
  "(\<forall>fileStat errorMsg e.
      FetchDiffStatBetweenCommits gitContext (Commit commit) [] (CheckoutPath commit)
        = (fileStat, errorMsg, Some e)
      \<longrightarrow> GetCommitStats FetchDiffStatBetweenCommits getFileStat gitContext commit = (None, Some e))
 \<and> (\<forall>fileStat errorMsg.
      FetchDiffStatBetweenCommits gitContext (Commit commit) [] (CheckoutPath commit)
        = (fileStat, errorMsg, None)
      \<longrightarrow> GetCommitStats FetchDiffStatBetweenCommits getFileStat gitContext commit
          = getFileStat fileStat)
 \<and> (\<forall>fetch.
      fetch gitContext (Commit commit) [] (CheckoutPath commit)
        = FetchDiffStatBetweenCommits gitContext (Commit commit) [] (CheckoutPath commit)
      \<longrightarrow> GetCommitStats fetch getFileStat gitContext commit
          = GetCommitStats FetchDiffStatBetweenCommits getFileStat gitContext commit)"
  by (simp add: GetCommitStats_def)

text \<open>
  C7 for the commit \<open>c1\<close> checked out at \<open>/repo\<close>: a failing query, and one that echoes
  its three arguments, which shows them to be \<open>c1\<close>, the empty string and \<open>/repo\<close>.
\<close>

theorem C7_stats_for_commit_witness:
  "fetch_fails () (Commit sample_commit) [] (CheckoutPath sample_commit)
     = ([], ''fatal: bad revision'', Some (ErrOther ''exit status 128''))
 \<and> GetCommitStats fetch_fails stat_text () sample_commit = (None, Some (ErrOther ''exit status 128''))
 \<and> fetch_echo () (Commit sample_commit) [] (CheckoutPath sample_commit) = (''c1||/repo'', [], None)
 \<and> GetCommitStats fetch_echo stat_text () sample_commit = (Some ''c1||/repo'', None)"
proof -
  have f: "fetch_fails () (Commit sample_commit) [] (CheckoutPath sample_commit)
     = ([], ''fatal: bad revision'', Some (ErrOther ''exit status 128''))"
    by (simp add: fetch_fails_def)
  have g: "fetch_echo () (Commit sample_commit) [] (CheckoutPath sample_commit) = (''c1||/repo'', [], None)"
    by (simp add: fetch_echo_def sample_commit_def)
  from C7_stats_for_commit [of fetch_fails "()" sample_commit stat_text] f
  have 1: "GetCommitStats fetch_fails stat_text () sample_commit = (None, Some (ErrOther ''exit status 128''))"
    by blast
  from C7_stats_for_commit [of fetch_echo "()" sample_commit stat_text] g
  have 2: "GetCommitStats fetch_echo stat_text () sample_commit = stat_text ''c1||/repo''"
    by blast
  from f g 1 2 show ?thesis by (simp add: stat_text_def)
qed

subsection \<open>C5: the empty output\<close>

text \<open>
  C5. Decoding an empty raw output yields a commit list of length zero and a nil error,
  whatever the JSON decoder and the root directory are.
\<close>

theorem C5_empty_output:
  "processGitLogOutput unmarshal [] root = ([], None)"
  by (simp add: processGitLogOutput_def)

subsection \<open>C9: a show query that decodes to several commits\<close>

text \<open>
  C9. When the output of the show query decodes, with no error, to more than one commit,
  \<open>GitShow\<close>, and so \<open>GetCommitForHash\<close> and \<open>GetCommitsForTag\<close>, return the first commit
  of the decoded list and the nil error: the other commits are dropped and their number
  raises no error.
\<close>

theorem C9_first_of_many:
  assumes "runCommand gitContext
             [''git'', ''-C'', root, ''show'', ref, ''--date=iso-strict'', GITFORMAT, ''-s'']
           = (output, errMsg, e)"
    and "processGitLogOutput unmarshal output root = (commits, None)"
    and "1 < length commits"
  shows "GitShow runCommand unmarshal GITFORMAT gitContext root ref = (Some (hd commits), None)
       \<and> GetCommitForHash runCommand unmarshal GITFORMAT gitContext root ref = (Some (hd commits), None)
       \<and> GetCommitsForTag runCommand unmarshal GITFORMAT gitContext root ref = (Some (hd commits), None)"
  using assms
  by (cases commits) (simp_all add: GetCommitForHash_def GetCommitsForTag_def GitShow_def)

text \<open>
  C9 on the sample output of two fragments: the commit returned is \<open>c2\<close>, the first one.
\<close>

theorem C9_first_of_many_witness:
  "run_sample () [''git'', ''-C'', ''/repo'', ''show'', ''c2'', ''--date=iso-strict'', sample_GITFORMAT, ''-s'']
     = (sample_output, [], None)
   \<and> processGitLogOutput (Unmarshal sample_decode) sample_output ''/repo'' = (sample_commits, None)
   \<and> 1 < length sample_commits
   \<and> GetCommitForHash run_sample (Unmarshal sample_decode) sample_GITFORMAT () ''/repo'' ''c2''
       = (Some \<lparr> Commit = ''c2'', Author = ''Ann <ann@example.org>'',
                 Date = ''2024-05-02T10:00:00+02:00'',
                 Message = ''second'' @ [CHR 0x0A] @ ''more'', CheckoutPath = ''/repo'' \<rparr>, None)"
proof -
  have r: "run_sample () [''git'', ''-C'', ''/repo'', ''show'', ''c2'', ''--date=iso-strict'', sample_GITFORMAT, ''-s'']
     = (sample_output, [], None)"
    by (simp add: run_sample_def)
  have n: "1 < length sample_commits" by (simp add: sample_commits_def)
  from C9_first_of_many [where runCommand = run_sample and gitContext = "()"
      and unmarshal = "Unmarshal sample_decode", OF r processGitLogOutput_sample n]
    r n processGitLogOutput_sample
  show ?thesis by (simp add: sample_commits_def)
qed

subsection \<open>C4: a failed parse returns no commits\<close>

text \<open>
  C4. For every non-empty raw output whose repaired text (last byte dropped, wrapped in
  brackets) the decoder rejects, \<open>processGitLogOutput\<close> returns the decoder's error and
  the empty list, also when the decoder had filled part of its list; in particular when
  the repaired text is not valid JSON for \<open>json.Unmarshal\<close>'s syntax check. And on every
  input, an error never comes with a commit.
\<close>

theorem C4_no_partial_batch:
  "(out \<noteq> [] \<and> snd (unmarshal (repair out)) \<noteq> None \<longrightarrow>
      processGitLogOutput unmarshal out root = ([], snd (unmarshal (repair out))))
 \<and> (out \<noteq> [] \<and> checkValid (repair out) \<noteq> None \<longrightarrow>
      (\<exists>e. processGitLogOutput (Unmarshal decode) out root = ([], Some e)))
 \<and> (snd (processGitLogOutput unmarshal out root) \<noteq> None \<longrightarrow>
      fst (processGitLogOutput unmarshal out root) = [])"
proof (intro conjI impI)
  assume "out \<noteq> [] \<and> snd (unmarshal (repair out)) \<noteq> None"
  then show "processGitLogOutput unmarshal out root = ([], snd (unmarshal (repair out)))"
    by (simp add: processGitLogOutput_nonempty)
next
  assume a: "out \<noteq> [] \<and> checkValid (repair out) \<noteq> None"
  then obtain m where "checkValid (repair out) = Some m" by blast
  with a show "\<exists>e. processGitLogOutput (Unmarshal decode) out root = ([], Some e)"
    by (simp add: processGitLogOutput_nonempty Unmarshal_def)
next
  assume e: "snd (processGitLogOutput unmarshal out root) \<noteq> None"
  show "fst (processGitLogOutput unmarshal out root) = []"
  proof (cases "out = []")
    case True
    then show ?thesis by (simp add: processGitLogOutput_def)
  next
    case False
    with e show ?thesis by (simp add: processGitLogOutput_nonempty split: if_splits)
  qed
qed

text \<open>
  C4 on two outputs: one whose second element is a number, for which the decoder returns
  an error and a list of two fragments, and one fragment without its separator, whose
  repaired text fails the syntax check.
\<close>

theorem C4_no_partial_batch_witness:
  "sample_mistyped_output \<noteq> []
 \<and> Unmarshal sample_decode (repair sample_mistyped_output) =
     (sample_partial,
      Some (ErrOther ''json: cannot unmarshal number into Go value of type git.GitCommitFormat''))
 \<and> processGitLogOutput (Unmarshal sample_decode) sample_mistyped_output ''/repo''
     = ([], Some (ErrOther ''json: cannot unmarshal number into Go value of type git.GitCommitFormat''))
 \<and> sample_fragment \<noteq> []
 \<and> checkValid (repair sample_fragment) = Some ''after object key:value pair''
 \<and> processGitLogOutput (Unmarshal sample_decode) sample_fragment ''/repo''
     = ([], Some (ErrOther ''after object key:value pair''))"
proof -
  note s = sample_output_nonempty Unmarshal_samples checkValid_unclosed_sample
  from C4_no_partial_batch [of sample_mistyped_output "Unmarshal sample_decode" "''/repo''"] s
  have 1: "processGitLogOutput (Unmarshal sample_decode) sample_mistyped_output ''/repo''
     = ([], Some (ErrOther ''json: cannot unmarshal number into Go value of type git.GitCommitFormat''))"
    by simp
  from C4_no_partial_batch [of sample_fragment "Unmarshal sample_decode" "''/repo''" sample_decode] s
  obtain e where 2: "processGitLogOutput (Unmarshal sample_decode) sample_fragment ''/repo'' = ([], Some e)"
    by auto
  moreover have "Unmarshal sample_decode (repair sample_fragment)
      = ([], Some (ErrOther ''after object key:value pair''))"
    by (simp add: Unmarshal_def checkValid_unclosed_sample)
  ultimately have "e = ErrOther ''after object key:value pair''"
    by (simp add: processGitLogOutput_nonempty sample_output_nonempty)
  with 1 2 s show ?thesis by simp
qed


subsection \<open>C6: one commit per fragment, in order\<close>

text \<open>
  C6. For every non-empty raw output whose repaired text decodes to the fragments
  \<open>fragments\<close>, \<open>processGitLogOutput\<close> returns no error and exactly as many commits, the
  i-th built from the i-th fragment: the author is the committer's name, a space and
  the committer's email in angle brackets, the message is the subject, a newline and
  the body, the date and the hash are copied, and the checkout path is the root
  directory passed in.
\<close>

theorem C6_commits_of_fragments:
  assumes "out \<noteq> []" and "unmarshal (repair out) = (fragments, None)"
  shows "\<exists>commits. processGitLogOutput unmarshal out root = (commits, None)
     \<and> length commits = length fragments
     \<and> (\<forall>i < length fragments.
           Author (commits ! i)
             = Name (Commiter (fragments ! i)) @ '' <'' @ Email (Commiter (fragments ! i)) @ ''>''
         \<and> Message (commits ! i) = Subject (fragments ! i) @ [CHR 0x0A] @ Body (fragments ! i)
         \<and> Date (commits ! i) = GitPerson.Date (Commiter (fragments ! i))
         \<and> Commit (commits ! i) = GitCommitFormat.Commit (fragments ! i)
         \<and> CheckoutPath (commits ! i) = root)"
proof -
  from assms have "processGitLogOutput unmarshal out root = (map (toGitCommit root) fragments, None)"
    by (simp add: processGitLogOutput_nonempty)
  then show ?thesis
    by (intro exI [of _ "map (toGitCommit root) fragments"]) (simp add: toGitCommit_def)
qed

text \<open>C6 on the sample output: two fragments give the commits \<open>c2\<close> and \<open>c1\<close>, in this order.\<close>

theorem C6_commits_of_fragments_witness:
  "sample_output \<noteq> []
 \<and> Unmarshal sample_decode (repair sample_output) = (sample_fragments, None)
 \<and> processGitLogOutput (Unmarshal sample_decode) sample_output ''/repo''
     = ([\<lparr> Commit = ''c2'', Author = ''Ann <ann@example.org>'',
           Date = ''2024-05-02T10:00:00+02:00'', Message = ''second'' @ [CHR 0x0A] @ ''more'',
           CheckoutPath = ''/repo'' \<rparr>,
         \<lparr> Commit = ''c1'', Author = ''Bob <bob@example.org>'',
           Date = ''2024-05-01T09:30:00+02:00'', Message = ''first'' @ [CHR 0x0A],
           CheckoutPath = ''/repo'' \<rparr>], None)"
proof -
  note s = sample_output_nonempty(1) Unmarshal_samples(2)
  from C6_commits_of_fragments [where unmarshal = "Unmarshal sample_decode" and root = "''/repo''",
      OF s]
  obtain commits where c: "processGitLogOutput (Unmarshal sample_decode) sample_output ''/repo'' = (commits, None)"
    and n: "length commits = length sample_fragments"
    and f: "\<forall>i < length sample_fragments.
           Author (commits ! i)
             = Name (Commiter (sample_fragments ! i)) @ '' <'' @ Email (Commiter (sample_fragments ! i)) @ ''>''
         \<and> Message (commits ! i) = Subject (sample_fragments ! i) @ [CHR 0x0A] @ Body (sample_fragments ! i)
         \<and> Date (commits ! i) = GitPerson.Date (Commiter (sample_fragments ! i))
         \<and> Commit (commits ! i) = GitCommitFormat.Commit (sample_fragments ! i)
         \<and> CheckoutPath (commits ! i) = ''/repo''"
    by blast
  from n obtain a b where ab: "commits = [a, b]"
    by (cases commits; cases "tl commits") (auto simp: sample_fragments_def)
  from f [rule_format, of 0] f [rule_format, of 1] ab
  have "a = \<lparr> Commit = ''c2'', Author = ''Ann <ann@example.org>'',
           Date = ''2024-05-02T10:00:00+02:00'', Message = ''second'' @ [CHR 0x0A] @ ''more'',
           CheckoutPath = ''/repo'' \<rparr>"
    and "b = \<lparr> Commit = ''c1'', Author = ''Bob <bob@example.org>'',
           Date = ''2024-05-01T09:30:00+02:00'', Message = ''first'' @ [CHR 0x0A],
           CheckoutPath = ''/repo'' \<rparr>"
    by (simp_all add: sample_fragments_def)
  with c ab s show ?thesis by simp
qed

subsection \<open>C8: the last byte is dropped whatever it is\<close>

text \<open>
  C8. For every non-empty raw output the repaired text is the output without its last
  byte, whatever that byte is, between brackets, and the result is the decoder's on that
  text. So when the text before the last byte decodes between brackets, the output
  decodes to the same commits for every last byte \<open>c\<close>, a separator or not. And a
  well-formed fragment with no separator after it (a text from \<open>{\<close> to \<open>}\<close> that
  \<open>json.Unmarshal\<close>'s syntax check accepts) loses its closing brace and is rejected:
  whatever the decoding proper would do, \<open>processGitLogOutput\<close> returns an error and no
  commit.
\<close>

theorem C8_unconditional_strip:
  "(out \<noteq> [] \<longrightarrow>
      repair out = ''['' @ butlast out @ '']''
      \<and> processGitLogOutput unmarshal out root =
          (case unmarshal (''['' @ butlast out @ '']'') of
             (fragments, None) \<Rightarrow> (map (toGitCommit root) fragments, None)
           | (fragments, Some e) \<Rightarrow> ([], Some e)))
 \<and> (unmarshal (''['' @ text @ '']'') = (fragments, None) \<longrightarrow>
      (\<forall>c. processGitLogOutput unmarshal (text @ [c]) root
             = (map (toGitCommit root) fragments, None)))
 \<and> (checkValid (CHR ''{'' # body @ ''}'') = None \<longrightarrow>
      repair (CHR ''{'' # body @ ''}'') = ''[{'' @ body @ '']''
      \<and> (\<exists>e. processGitLogOutput (Unmarshal decode) (CHR ''{'' # body @ ''}'') root = ([], Some e)))"
proof (intro conjI impI allI)
  assume "out \<noteq> []"
  then show "processGitLogOutput unmarshal out root =
          (case unmarshal (''['' @ butlast out @ '']'') of
             (fragments, None) \<Rightarrow> (map (toGitCommit root) fragments, None)
           | (fragments, Some e) \<Rightarrow> ([], Some e))"
    by (simp add: processGitLogOutput_nonempty repair_butlast split: prod.splits option.splits)
next
  show "repair out = ''['' @ butlast out @ '']''" by (rule repair_butlast)
next
  fix c
  assume "unmarshal (''['' @ text @ '']'') = (fragments, None)"
  then show "processGitLogOutput unmarshal (text @ [c]) root = (map (toGitCommit root) fragments, None)"
    by (simp add: processGitLogOutput_nonempty repair_butlast)
next
  show "repair (CHR ''{'' # body @ ''}'') = ''[{'' @ body @ '']''"
    by (simp add: repair_butlast butlast_append)
next
  assume "checkValid (CHR ''{'' # body @ ''}'') = None"
  from unclosed_object_invalid [OF this]
  obtain m where "checkValid (CHR ''['' # CHR ''{'' # body @ '']'') = Some m" ..
  then show "\<exists>e. processGitLogOutput (Unmarshal decode) (CHR ''{'' # body @ ''}'') root = ([], Some e)"
    by (simp add: processGitLogOutput_nonempty repair_butlast butlast_append Unmarshal_def)
qed


text \<open>
  C8 on the sample output: with its last byte replaced by \<open>X\<close> it decodes to the same two
  commits; and the sample fragment alone, a valid JSON object, is rejected.
\<close>

theorem C8_unconditional_strip_witness:
  "sample_output \<noteq> []
 \<and> Unmarshal sample_decode (''['' @ butlast sample_output @ '']'') = (sample_fragments, None)
 \<and> processGitLogOutput (Unmarshal sample_decode) (butlast sample_output @ ''X'') ''/repo''
     = (sample_commits, None)
 \<and> processGitLogOutput (Unmarshal sample_decode) sample_output ''/repo'' = (sample_commits, None)
 \<and> checkValid sample_fragment = None
 \<and> (\<exists>e. processGitLogOutput (Unmarshal sample_decode) sample_fragment ''/repo'' = ([], Some e))"
proof -
  have u: "Unmarshal sample_decode (''['' @ butlast sample_output @ '']'') = (sample_fragments, None)"
    using Unmarshal_samples(2) by (simp add: repair_butlast)
  have v: "checkValid (CHR ''{'' # butlast (tl sample_fragment) @ ''}'') = None"
    by (simp only: sample_fragment_shape checkValid_samples)
  note t = C8_unconditional_strip [of sample_output "Unmarshal sample_decode" "''/repo''"
      "butlast sample_output" sample_fragments "butlast (tl sample_fragment)" sample_decode]
  from t u have 1: "processGitLogOutput (Unmarshal sample_decode) (butlast sample_output @ ''X'') ''/repo''
     = (sample_commits, None)"
    by (simp add: toGitCommit_samples)
  from t u sample_output_nonempty(1)
  have 2: "processGitLogOutput (Unmarshal sample_decode) sample_output ''/repo'' = (sample_commits, None)"
    by (simp add: toGitCommit_samples)
  from t v have 3: "\<exists>e. processGitLogOutput (Unmarshal sample_decode) sample_fragment ''/repo'' = ([], Some e)"
    by (simp only: sample_fragment_shape simp_thms)
  from 1 2 3 u sample_output_nonempty(1) checkValid_samples(4) show ?thesis by simp
qed

section \<open>Further properties\<close>

subsection \<open>X1: the show query's process error is never read\<close>

text \<open>
  X1. \<open>GitShow\<close> reads only the output of the show command: two runs that print the same
  output give the same result, whatever their error messages and process errors are. In
  particular a process that fails with no output gives the nil commit and the nil error.
\<close>

theorem X1_show_reads_only_output:
  assumes "runCommand gitContext
             [''git'', ''-C'', root, ''show'', ref, ''--date=iso-strict'', GITFORMAT, ''-s'']
           = (output, errMsg, e)"
    and "runCommand' gitContext
             [''git'', ''-C'', root, ''show'', ref, ''--date=iso-strict'', GITFORMAT, ''-s'']
           = (output, errMsg', e')"
  shows "GitShow runCommand unmarshal GITFORMAT gitContext root ref
       = GitShow runCommand' unmarshal GITFORMAT gitContext root ref"
  using assms by (simp add: GitShow_def)

text \<open>X1 for a show command that fails with exit status 128 and prints nothing.\<close>

theorem X1_show_reads_only_output_witness:
  "run_fails () [''git'', ''-C'', ''/repo'', ''show'', ''0123abc'', ''--date=iso-strict'', sample_GITFORMAT, ''-s'']
     = ([], ''fatal: bad object 0123abc'', Some (ErrOther ''exit status 128''))
 \<and> run_nothing () [''git'', ''-C'', ''/repo'', ''show'', ''0123abc'', ''--date=iso-strict'', sample_GITFORMAT, ''-s'']
     = ([], [], None)
 \<and> GitShow run_fails (Unmarshal sample_decode) sample_GITFORMAT () ''/repo'' ''0123abc'' = (None, None)"
proof -
  have f: "run_fails () [''git'', ''-C'', ''/repo'', ''show'', ''0123abc'', ''--date=iso-strict'', sample_GITFORMAT, ''-s'']
     = ([], ''fatal: bad object 0123abc'', Some (ErrOther ''exit status 128''))"
    by (simp add: run_fails_def)
  have n: "run_nothing () [''git'', ''-C'', ''/repo'', ''show'', ''0123abc'', ''--date=iso-strict'', sample_GITFORMAT, ''-s'']
     = ([], [], None)"
    by (simp add: run_nothing_def)
  have "GitShow run_nothing (Unmarshal sample_decode) sample_GITFORMAT () ''/repo'' ''0123abc'' = (None, None)"
    by (simp add: GitShow_def run_nothing_def processGitLogOutput_def)
  with X1_show_reads_only_output [where runCommand = run_fails and runCommand' = run_nothing
      and unmarshal = "Unmarshal sample_decode", OF f n] f n
  show ?thesis by simp
qed

subsection \<open>X2: the history query stops at a process error\<close>

text \<open>
  X2. When the log command of \<open>GetCommits\<close> returns a process error, \<open>GetCommits\<close> returns
  that error and no commit, whatever the command printed and whatever the decoder would
  make of it.
\<close>

theorem X2_log_process_error:
  assumes "runCommand gitContext
             (''git'' # GetCommits_cmdArgs GITFORMAT branchRef root numCommits from to)
           = (output, errMsg, Some e)"
  shows "GetCommits runCommand unmarshal GITFORMAT gitContext branchRef branch root numCommits from to
       = ([], Some e)"
  using assms by (simp add: GetCommits_def)

text \<open>X2 for a log command that fails with exit status 128.\<close>

theorem X2_log_process_error_witness:
  "run_fails () (''git'' # GetCommits_cmdArgs sample_GITFORMAT ''main'' ''/repo'' 15 ''A'' [])
     = ([], ''fatal: bad object 0123abc'', Some (ErrOther ''exit status 128''))
 \<and> GetCommits run_fails (Unmarshal sample_decode) sample_GITFORMAT () ''main'' ''main'' ''/repo'' 15 ''A'' []
     = ([], Some (ErrOther ''exit status 128''))"
proof -
  have f: "run_fails () (''git'' # GetCommits_cmdArgs sample_GITFORMAT ''main'' ''/repo'' 15 ''A'' [])
     = ([], ''fatal: bad object 0123abc'', Some (ErrOther ''exit status 128''))"
    by (simp add: run_fails_def)
  from X2_log_process_error [where runCommand = run_fails and unmarshal = "Unmarshal sample_decode"
      and branch = "''main''", OF f] f
  show ?thesis by simp
qed

end
